theory Spec2Isabelle
  imports Main
begin

section \<open>JavaScript values\<close>

text \<open>
  Request fields are JavaScript strings that may be absent (\<open>undefined\<close>): a
  \<open>string option\<close>. \<open>!v\<close> is true for \<open>undefined\<close> and for the empty string.
\<close>

definition falsy :: "string option \<Rightarrow> bool" where
  "falsy v = (case v of None \<Rightarrow> True | Some s \<Rightarrow> s = [])"

text \<open>\<open>v || ''\<close>: the string itself when \<open>v\<close> is not falsy.\<close>

definition or_empty :: "string option \<Rightarrow> string" where
  "or_empty v = (case v of None \<Rightarrow> [] | Some s \<Rightarrow> s)"

text \<open>\<open>String.prototype.toLowerCase\<close> on the ASCII letters; other bytes are kept.\<close>

definition toLowerCase_char :: "char \<Rightarrow> char" where
  "toLowerCase_char c =
     (case map_of (zip ''ABCDEFGHIJKLMNOPQRSTUVWXYZ'' ''abcdefghijklmnopqrstuvwxyz'') c of
        Some l \<Rightarrow> l
      | None \<Rightarrow> c)"

definition toLowerCase :: "string \<Rightarrow> string" where
  "toLowerCase s = map toLowerCase_char s"

text \<open>A thrown JavaScript error: the name of its class and its \<open>message\<close>.\<close>

datatype exn_name =
  Error | TypeError | MulterError | JsonWebTokenError | TokenExpiredError
  | ValidationError | MongooseError | MongoServerError

datatype exn = Exn exn_name string

fun exn_message :: "exn \<Rightarrow> string" where
  "exn_message (Exn n m) = m"

fun exn_class :: "exn \<Rightarrow> exn_name" where
  "exn_class (Exn n m) = n"

section \<open>Session tokens (jsonwebtoken)\<close>

text \<open>
  The token library (\<open>jwt.sign\<close>, \<open>jwt.verify\<close>) is not part of the sources; the
  two functions below are modelled from the spec's Session Token Issuer/Verifier. A
  token string is either a well-formed token (its payload and the key it was signed
  with) or any other string. Times are seconds since the epoch.
\<close>

record jwt_payload =
  jwt_id :: nat
  jwt_iat :: nat
  jwt_exp :: nat

datatype jwt = Signed jwt_payload string | NotAToken string

text \<open>
  Modelled from the spec: \<open>jwt.sign\<close> is missing. The spec's \<open>issue(userId)\<close>
  "produces a signed token binding \<open>userId\<close> and an absolute expiry" of the given
  time span "from issuance"; the token is "a signed structure carrying at minimum
  \<open>{subject: userId, expiresAt}\<close>".
\<close>

definition jwt_sign :: "nat \<Rightarrow> string \<Rightarrow> nat \<Rightarrow> nat \<Rightarrow> jwt" where
  "jwt_sign userId secret expiresIn clock =
     Signed \<lparr>jwt_id = userId, jwt_iat = clock, jwt_exp = clock + expiresIn\<rparr> secret"

text \<open>
  Modelled from the spec: \<open>jwt.verify\<close> is missing. The spec's \<open>verify(token)\<close>
  yields the payload "or fails with \<open>{Expired, Malformed, SignatureInvalid}\<close>"; it
  "must check both signature and expiry" and "rejects any token not matching the
  configured signing key or whose \<open>expiresAt\<close> has passed". The errors carry the names
  and messages the library gives them.
\<close>

definition jwt_verify :: "jwt \<Rightarrow> string \<Rightarrow> nat \<Rightarrow> exn + jwt_payload" where
  "jwt_verify t secret clock =
     (case t of
        NotAToken s \<Rightarrow> Inl (Exn JsonWebTokenError ''jwt malformed'')
      | Signed p k \<Rightarrow>
          if k \<noteq> secret then Inl (Exn JsonWebTokenError ''invalid signature'')
          else if jwt_exp p \<le> clock then Inl (Exn TokenExpiredError ''jwt expired'')
          else Inr p)"

section \<open>JSON responses\<close>

datatype json =
  JNull | JBool bool | JNum nat | JStr string | JTok jwt
  | JArr "json list" | JObj "(string \<times> json) list"

record response =
  status :: nat
  body :: json

fun jget :: "string \<Rightarrow> json \<Rightarrow> json option" where
  "jget k (JObj kvs) = map_of kvs k"
| "jget k j = None"

fun json_keys :: "json \<Rightarrow> string list" where
  "json_keys (JObj kvs) = map fst kvs"
| "json_keys j = []"

text \<open>Every object key that occurs anywhere in a JSON value.\<close>

fun all_keys :: "json \<Rightarrow> string list" where
  "all_keys (JObj kvs) = concat (map (\<lambda>kv. fst kv # all_keys (snd kv)) kvs)"
| "all_keys (JArr js) = concat (map all_keys js)"
| "all_keys j = []"

text \<open>\<open>res.status(code).json({ success: false, message })\<close>\<close>

definition json_fail :: "nat \<Rightarrow> string \<Rightarrow> response" where
  "json_fail code msg =
     \<lparr>status = code, body = JObj [(''success'', JBool False), (''message'', JStr msg)]\<rparr>"

section \<open>The user store\<close>

text \<open>
  A stored user document. \<open>u_id\<close> is \<open>_id\<close>; \<open>u_password\<close> holds the bcrypt hash;
  \<open>u_authProvider\<close> is the string \<open>'local'\<close> or \<open>'google'\<close>; \<open>u_createdAt\<close> is in
  milliseconds.
\<close>

record user =
  u_id :: nat
  u_name :: string
  u_email :: string
  u_password :: "string option"
  u_authProvider :: string
  u_googleId :: "string option"
  u_createdAt :: nat

text \<open>
  What the outside world contributes to one request: the clock (\<open>Date.now()\<close>, in
  milliseconds), the salt \<open>bcrypt.genSalt\<close> draws, the random numbers
  \<open>Math.random\<close> draws, the outcome of Google's verification of an ID token for an
  audience, and which calls to the database fail (with the message of the error they
  throw). \<open>io_exact_limit_too_large\<close> says how the installed multipart parser treats
  a file of exactly the size limit: busboy 1.x reports it as too large, busboy 0.x
  takes it.
\<close>

datatype call = FindByEmail | FindById | Create | Save | SupportRequestCreate

record google_payload =
  g_email :: string
  g_name :: string
  g_sub :: string

record io =
  io_now :: nat
  io_salt :: string
  io_random :: "nat \<Rightarrow> nat"
  io_google :: "string \<Rightarrow> string \<Rightarrow> exn + google_payload"
  io_fault :: "call \<Rightarrow> string option"
  io_exact_limit_too_large :: bool

text \<open>
  The process configuration (\<open>process.env\<close>) and the password hasher. bcrypt is a
  parameter: \<open>bcrypt_hash password salt\<close> and \<open>bcrypt_compare password hash\<close>.
\<close>

record config =
  JWT_SECRET :: string
  GOOGLE_CLIENT_ID :: string
  bcrypt_hash :: "string \<Rightarrow> string \<Rightarrow> string"
  bcrypt_compare :: "string \<Rightarrow> string \<Rightarrow> bool"

text \<open>A database call that the world lets fail throws; otherwise it yields its result.\<close>

definition db_call :: "io \<Rightarrow> call \<Rightarrow> 'a \<Rightarrow> exn + 'a" where
  "db_call io c v = (case io_fault io c of Some m \<Rightarrow> Inl (Exn MongooseError m) | None \<Rightarrow> Inr v)"

text \<open>
  The User model (\<open>models/User.js\<close>: the schema and the static \<open>findByEmail\<close>) is not
  part of the sources; the operations below are modelled from the spec's Credential
  Store, which "exposes lookup-by-email, lookup-by-id, create, and update-in-place".
  The store is the list of its documents in insertion order; a document is stored with
  the field values it was given.
\<close>

text \<open>
  Modelled from the spec: the comparison of emails in \<open>models/User.js\<close> is missing.
  The spec's email is "case-insensitive for lookup purposes".
\<close>

definition same_email :: "string \<Rightarrow> user \<Rightarrow> bool" where
  "same_email e u = (toLowerCase (u_email u) = toLowerCase e)"

text \<open>
  Modelled from the spec: \<open>User.findByEmail\<close> is missing. It is the spec's
  lookup-by-email: the first stored user whose email is the given one, if any.
\<close>

definition User_findByEmail :: "io \<Rightarrow> user list \<Rightarrow> string \<Rightarrow> exn + user option" where
  "User_findByEmail io us e = db_call io FindByEmail (find (same_email e) us)"

text \<open>
  Modelled from the spec: the User model behind \<open>User.findById\<close> is missing. It is the
  spec's lookup-by-id.
\<close>

definition User_findById :: "io \<Rightarrow> user list \<Rightarrow> nat \<Rightarrow> exn + user option" where
  "User_findById io us i = db_call io FindById (find (\<lambda>u. u_id u = i) us)"

text \<open>
  Modelled from the spec: the assignment of \<open>_id\<close> is missing. The spec's id is
  "assigned at creation, immutable, unique": the new id is above every stored id.
\<close>

definition fresh_id :: "user list \<Rightarrow> nat" where
  "fresh_id us = Suc (foldr max (map u_id us) 0)"

text \<open>
  Modelled from the spec: the User model behind \<open>User.create\<close> is missing. The spec's
  email is "unique across all identities" with "uniqueness enforced at write time": a
  document whose email a stored user has is refused with a duplicate-key error.
  Otherwise the document is stored with a fresh id and the "creation timestamp".
\<close>

definition User_create ::
  "io \<Rightarrow> user list \<Rightarrow> string \<Rightarrow> string \<Rightarrow> string option \<Rightarrow> string option \<Rightarrow> string
     \<Rightarrow> exn + (user list \<times> user)" where
  "User_create io us name email password googleId authProvider =
     (case io_fault io Create of
        Some m \<Rightarrow> Inl (Exn MongooseError m)
      | None \<Rightarrow>
          (case find (same_email email) us of
             Some u \<Rightarrow> Inl (Exn MongoServerError ''E11000 duplicate key error'')
           | None \<Rightarrow>
               let doc = \<lparr>u_id = fresh_id us, u_name = name, u_email = email,
                            u_password = password, u_authProvider = authProvider,
                            u_googleId = googleId, u_createdAt = io_now io\<rparr>
               in Inr (us @ [doc], doc)))"

text \<open>
  Modelled from the spec: the User model behind \<open>user.save()\<close> is missing. It is the
  spec's update-in-place: the stored document with the id of \<open>doc\<close> is replaced by \<open>doc\<close>.
\<close>

definition User_save :: "io \<Rightarrow> user list \<Rightarrow> user \<Rightarrow> exn + user list" where
  "User_save io us doc =
     db_call io Save (map (\<lambda>u. if u_id u = u_id doc then doc else u) us)"

section \<open>Support requests (models/SupportRequest.js)\<close>

text \<open>
  An attachment as the controller hands it to \<open>create\<close>, and as the document embeds
  it (mongoose gives every embedded document an \<open>_id\<close>). A stored support request has
  the fields of the schema, its \<open>_id\<close>, the two timestamps of \<open>timestamps: true\<close> and
  the version key \<open>__v\<close>.
\<close>

record attachment =
  a_filename :: string
  a_path :: string
  a_mimetype :: string
  a_size :: nat

record embedded_attachment = attachment +
  a_id :: nat

record support_request =
  sr_id :: nat
  sr_subject :: string
  sr_description :: string
  sr_phoneNumber :: string
  sr_email :: string
  sr_attachments :: "embedded_attachment list"
  sr_status :: string
  sr_priority :: string
  sr_userId :: "nat option"
  sr_createdAt :: nat
  sr_updatedAt :: nat
  sr_v :: nat

section \<open>The state of the service\<close>

text \<open>
  The two collections and what \<open>console.error\<close> has written (the label and the error
  of each call). The lines that \<open>console.log\<close> writes are not kept.
\<close>

record world =
  users :: "user list"
  supportRequests :: "support_request list"
  console_error :: "(string \<times> exn) list"

definition log_error :: "world \<Rightarrow> string \<Rightarrow> exn \<Rightarrow> world" where
  "log_error w label e = w\<lparr>console_error := console_error w @ [(label, e)]\<rparr>"

section \<open>controllers/authController.js\<close>

text \<open>\<open>expiresIn: '30d'\<close>, in seconds.\<close>

definition expiresIn_30d :: nat where
  "expiresIn_30d = 30 * 24 * 60 * 60"

definition generateToken :: "config \<Rightarrow> io \<Rightarrow> nat \<Rightarrow> jwt" where
  "generateToken cfg io userId =
     jwt_sign userId (JWT_SECRET cfg) expiresIn_30d (io_now io div 1000)"

text \<open>The \<open>user\<close> object of a response: \<open>{ id: user._id, name: user.name, email: user.email }\<close>.\<close>

definition user_json :: "user \<Rightarrow> json" where
  "user_json u = JObj [(''id'', JNum (u_id u)), (''name'', JStr (u_name u)), (''email'', JStr (u_email u))]"

definition auth_success :: "nat \<Rightarrow> string \<Rightarrow> user \<Rightarrow> jwt \<Rightarrow> response" where
  "auth_success code msg u token =
     \<lparr>status = code,
      body = JObj [(''success'', JBool True), (''message'', JStr msg),
                   (''data'', JObj [(''user'', user_json u), (''token'', JTok token)])]\<rparr>"

definition signup_catch :: "world \<Rightarrow> exn \<Rightarrow> world \<times> response" where
  "signup_catch w e = (log_error w ''Signup error:'' e, json_fail 500 ''Error creating user'')"

definition signup ::
  "config \<Rightarrow> io \<Rightarrow> world \<Rightarrow> string option \<Rightarrow> string option \<Rightarrow> string option
     \<Rightarrow> world \<times> response" where
  "signup cfg io w name email password =
     (case (name, email, password) of
        (Some name', Some email', Some password') \<Rightarrow>
          if name' = [] \<or> email' = [] \<or> password' = []
          then (w, json_fail 400 ''Please provide all required fields'')
          else
            (case User_findByEmail io (users w) email' of
               Inl e \<Rightarrow> signup_catch w e
             | Inr (Some existingUser) \<Rightarrow>
                 (w, json_fail 400 ''User already exists with this email'')
             | Inr None \<Rightarrow>
                 let salt = io_salt io;
                     hashedPassword = bcrypt_hash cfg password' salt
                 in (case User_create io (users w) name' email' (Some hashedPassword) None ''local'' of
                       Inl e \<Rightarrow> signup_catch w e
                     | Inr (us', u) \<Rightarrow>
                         (w\<lparr>users := us'\<rparr>,
                          auth_success 201 ''User created successfully'' u
                            (generateToken cfg io (u_id u)))))
      | _ \<Rightarrow> (w, json_fail 400 ''Please provide all required fields''))"

text \<open>
  \<open>bcrypt.compare(password, user.password)\<close>: bcryptjs rejects with an Error when the
  hash is not a string.
\<close>

definition bcrypt_compare_js :: "config \<Rightarrow> string \<Rightarrow> string option \<Rightarrow> exn + bool" where
  "bcrypt_compare_js cfg password hash =
     (case hash of
        None \<Rightarrow> Inl (Exn Error ''Illegal arguments: string, undefined'')
      | Some h \<Rightarrow> Inr (bcrypt_compare cfg password h))"

definition login_catch :: "world \<Rightarrow> exn \<Rightarrow> world \<times> response" where
  "login_catch w e = (log_error w ''Login error:'' e, json_fail 500 ''Error logging in'')"

definition login ::
  "config \<Rightarrow> io \<Rightarrow> world \<Rightarrow> string option \<Rightarrow> string option \<Rightarrow> world \<times> response" where
  "login cfg io w email password =
     (case (email, password) of
        (Some email', Some password') \<Rightarrow>
          if email' = [] \<or> password' = []
          then (w, json_fail 400 ''Please provide email and password'')
          else
            (case User_findByEmail io (users w) email' of
               Inl e \<Rightarrow> login_catch w e
             | Inr None \<Rightarrow> (w, json_fail 401 ''Invalid credentials'')
             | Inr (Some u) \<Rightarrow>
                 if u_authProvider u = ''google'' \<and> falsy (u_password u)
                 then (w, json_fail 401 ''Please sign in with Google'')
                 else
                   (case bcrypt_compare_js cfg password' (u_password u) of
                      Inl e \<Rightarrow> login_catch w e
                    | Inr isPasswordValid \<Rightarrow>
                        if \<not> isPasswordValid
                        then (w, json_fail 401 ''Invalid credentials'')
                        else (w, auth_success 200 ''Login successful'' u
                                   (generateToken cfg io (u_id u)))))
      | _ \<Rightarrow> (w, json_fail 400 ''Please provide email and password''))"

definition googleAuth_catch :: "world \<Rightarrow> exn \<Rightarrow> world \<times> response" where
  "googleAuth_catch w e =
     (log_error w ''Google auth error:'' e, json_fail 500 ''Error with Google authentication'')"

definition googleAuth_success :: "config \<Rightarrow> io \<Rightarrow> world \<Rightarrow> user \<Rightarrow> world \<times> response" where
  "googleAuth_success cfg io w u =
     (w, auth_success 200 ''Google authentication successful'' u (generateToken cfg io (u_id u)))"

definition googleAuth :: "config \<Rightarrow> io \<Rightarrow> world \<Rightarrow> string option \<Rightarrow> world \<times> response" where
  "googleAuth cfg io w credential =
     (case credential of
        None \<Rightarrow> (w, json_fail 400 ''Google credential is required'')
      | Some credential' \<Rightarrow>
          if credential' = [] then (w, json_fail 400 ''Google credential is required'')
          else
            (case io_google io credential' (GOOGLE_CLIENT_ID cfg) of
               Inl e \<Rightarrow> googleAuth_catch w e
             | Inr payload \<Rightarrow>
                 (case User_findByEmail io (users w) (g_email payload) of
                    Inl e \<Rightarrow> googleAuth_catch w e
                  | Inr None \<Rightarrow>
                      (case User_create io (users w) (g_name payload) (g_email payload) None
                              (Some (g_sub payload)) ''google'' of
                         Inl e \<Rightarrow> googleAuth_catch w e
                       | Inr (us', u) \<Rightarrow> googleAuth_success cfg io (w\<lparr>users := us'\<rparr>) u)
                  | Inr (Some u) \<Rightarrow>
                      if u_authProvider u = ''local''
                      then
                        (let u' = u\<lparr>u_googleId := Some (g_sub payload), u_authProvider := ''google''\<rparr>
                         in case User_save io (users w) u' of
                              Inl e \<Rightarrow> googleAuth_catch w e
                            | Inr us' \<Rightarrow> googleAuth_success cfg io (w\<lparr>users := us'\<rparr>) u')
                      else googleAuth_success cfg io w u)))"

text \<open>\<open>verifyToken\<close>: its \<open>catch\<close> answers 401 to whatever was thrown and logs nothing.\<close>

definition verifyToken :: "config \<Rightarrow> io \<Rightarrow> world \<Rightarrow> jwt option \<Rightarrow> world \<times> response" where
  "verifyToken cfg io w token =
     (case token of
        None \<Rightarrow> (w, json_fail 400 ''Token is required'')
      | Some t \<Rightarrow>
          if t = NotAToken [] then (w, json_fail 400 ''Token is required'')
          else
            (case jwt_verify t (JWT_SECRET cfg) (io_now io div 1000) of
               Inl e \<Rightarrow> (w, json_fail 401 ''Invalid or expired token'')
             | Inr decoded \<Rightarrow>
                 (case User_findById io (users w) (jwt_id decoded) of
                    Inl e \<Rightarrow> (w, json_fail 401 ''Invalid or expired token'')
                  | Inr None \<Rightarrow> (w, json_fail 401 ''Invalid token'')
                  | Inr (Some u) \<Rightarrow>
                      (w, \<lparr>status = 200,
                           body = JObj [(''success'', JBool True),
                                        (''data'', JObj [(''user'', user_json u)])]\<rparr>))))"

text \<open>\<open>getUserProfile\<close>: \<open>req.user.id\<close> was set by the access-control middleware.\<close>

definition getUserProfile :: "config \<Rightarrow> io \<Rightarrow> world \<Rightarrow> nat \<Rightarrow> world \<times> response" where
  "getUserProfile cfg io w req_user_id =
     (case User_findById io (users w) req_user_id of
        Inl e \<Rightarrow>
          (log_error w ''Get profile error:'' e, json_fail 500 ''Error fetching user profile'')
      | Inr None \<Rightarrow> (w, json_fail 404 ''User not found'')
      | Inr (Some u) \<Rightarrow>
          (w, \<lparr>status = 200,
               body = JObj [(''success'', JBool True),
                            (''data'', JObj [(''user'',
                               JObj [(''id'', JNum (u_id u)), (''name'', JStr (u_name u)),
                                     (''email'', JStr (u_email u)),
                                     (''createdAt'', JNum (u_createdAt u))])])]\<rparr>))"

section \<open>controllers/supportController.js\<close>

text \<open>
  \<open>path.extname\<close> (POSIX): the extension of the last segment of a path, from its last
  dot; empty when that segment has no dot, starts with its only dot, or is \<open>..\<close>.
\<close>

definition basename_segment :: "string \<Rightarrow> string" where
  "basename_segment p =
     rev (takeWhile (\<lambda>c. c \<noteq> CHR ''/'') (dropWhile (\<lambda>c. c = CHR ''/'') (rev p)))"

definition extname :: "string \<Rightarrow> string" where
  "extname p =
     (let b = basename_segment p;
          r = takeWhile (\<lambda>c. c \<noteq> CHR ''.'') (rev b)
      in if length r = length b then []
         else if Suc (length r) = length b then []
         else if b = ''..'' then []
         else CHR ''.'' # rev r)"

text \<open>
  \<open>/jpeg|jpg|png|gif|pdf|doc|docx|txt/.test(s)\<close>: the pattern has no anchors, so it
  accepts a string that contains one of the alternatives anywhere.
\<close>

fun has_substring :: "string \<Rightarrow> string \<Rightarrow> bool" where
  "has_substring s [] = True"
| "has_substring [] (c # w) = False"
| "has_substring (d # s) (c # w) =
     (take (Suc (length w)) (d # s) = c # w \<or> has_substring s (c # w))"

definition allowedTypes :: "string list" where
  "allowedTypes = [''jpeg'', ''jpg'', ''png'', ''gif'', ''pdf'', ''doc'', ''docx'', ''txt'']"

definition allowedTypes_test :: "string \<Rightarrow> bool" where
  "allowedTypes_test s = list_ex (has_substring s) allowedTypes"

text \<open>A file part of a multipart request, as multer hands it to \<open>fileFilter\<close>.\<close>

record uploaded_file =
  f_fieldname :: string
  f_originalname :: string
  f_mimetype :: string
  f_size :: nat

text \<open>A file that multer stored, as it stands in \<open>req.files\<close>.\<close>

record stored_file = uploaded_file +
  f_path :: string

text \<open>
  \<open>fileFilter\<close> calls back with an error or with \<open>true\<close>: \<open>Inl\<close> the error, \<open>Inr\<close>
  whether to keep the file.
\<close>

definition fileFilter :: "uploaded_file \<Rightarrow> exn + bool" where
  "fileFilter file =
     (let extname_ok = allowedTypes_test (toLowerCase (extname (f_originalname file)));
          mimetype_ok = allowedTypes_test (f_mimetype file)
      in if extname_ok \<and> mimetype_ok then Inr True
         else Inl (Exn Error ''Only images, PDFs, and documents are allowed!''))"

text \<open>Numbers in decimal, as string concatenation writes them.\<close>

fun digits :: "nat \<Rightarrow> string" where
  "digits n =
     (if n < 10 then [''0123456789'' ! n]
      else digits (n div 10) @ [''0123456789'' ! (n mod 10)])"

declare digits.simps [simp del]

text \<open>
  The disk storage: the file goes to \<open>uploads/support\<close> under the name
  \<open>'support-' + Date.now() + '-' + Math.round(Math.random() * 1E9) + extname\<close>;
  \<open>io_random io i\<close> is the rounded random number drawn for the \<open>i\<close>-th file.
\<close>

definition storage_filename :: "io \<Rightarrow> nat \<Rightarrow> uploaded_file \<Rightarrow> string" where
  "storage_filename io i file =
     ''support-'' @ digits (io_now io) @ ''-'' @ digits (io_random io i)
       @ extname (f_originalname file)"

definition store_file :: "io \<Rightarrow> nat \<Rightarrow> uploaded_file \<Rightarrow> stored_file" where
  "store_file io i file =
     \<lparr>f_fieldname = f_fieldname file, f_originalname = f_originalname file,
      f_mimetype = f_mimetype file, f_size = f_size file,
      f_path = ''uploads/support/'' @ storage_filename io i file\<rparr>"

text \<open>\<open>fileSize: 5 * 1024 * 1024\<close> and the \<open>5\<close> of \<open>.array('attachments', 5)\<close>.\<close>

definition fileSize_limit :: nat where
  "fileSize_limit = 5 * 1024 * 1024"

definition maxCount :: nat where
  "maxCount = 5"

text \<open>
  The multer middleware \<open>multer({storage, limits, fileFilter}).array('attachments', 5)\<close>.
  multer is a library: it takes the file parts in the order of the request, skips a
  part without a file name, aborts with the MulterError \<open>Unexpected field\<close> at a part of
  another field or at one more part than \<open>maxCount\<close>, then asks \<open>fileFilter\<close> and aborts
  with its error, and aborts with the MulterError \<open>File too large\<close> at a file of more
  than \<open>fileSize\<close> bytes (and, with a parser that says so, at a file of exactly
  \<open>fileSize\<close> bytes). \<open>left\<close> counts the files the field may still take, \<open>i\<close> the
  files stored so far.
\<close>

definition too_large :: "io \<Rightarrow> nat \<Rightarrow> bool" where
  "too_large io n =
     (fileSize_limit < n \<or> (io_exact_limit_too_large io \<and> n = fileSize_limit))"

fun multer_array :: "io \<Rightarrow> nat \<Rightarrow> nat \<Rightarrow> uploaded_file list \<Rightarrow> exn + stored_file list" where
  "multer_array io left i [] = Inr []"
| "multer_array io left i (file # rest) =
     (if f_originalname file = [] then multer_array io left i rest
      else if f_fieldname file \<noteq> ''attachments'' \<or> left = 0
      then Inl (Exn MulterError ''Unexpected field'')
      else
        (case fileFilter file of
           Inl err \<Rightarrow> Inl err
         | Inr keep \<Rightarrow>
             if \<not> keep then multer_array io (left - 1) i rest
             else if too_large io (f_size file) then Inl (Exn MulterError ''File too large'')
             else
               (case multer_array io (left - 1) (Suc i) rest of
                  Inl err \<Rightarrow> Inl err
                | Inr files \<Rightarrow> Inr (store_file io i file # files))))"

definition upload :: "io \<Rightarrow> uploaded_file list \<Rightarrow> exn + stored_file list" where
  "upload io parts = multer_array io maxCount 0 parts"

text \<open>
  A string is the sequence of its bytes in UTF-8. The white space and line terminators
  of ECMAScript, which \<open>String.prototype.trim\<close> removes: U+0009 to U+000D, U+0020,
  U+00A0, U+1680, U+2000 to U+200A, U+2028, U+2029, U+202F, U+205F, U+3000, U+FEFF.
\<close>

definition white_space :: "string list" where
  "white_space =
     map (\<lambda>c. [c]) [CHR 0x09, CHR 0x0A, CHR 0x0B, CHR 0x0C, CHR 0x0D, CHR 0x20]
     @ [[CHR 0xC2, CHR 0xA0], [CHR 0xE1, CHR 0x9A, CHR 0x80]]
     @ map (\<lambda>c. [CHR 0xE2, CHR 0x80, c])
         [CHR 0x80, CHR 0x81, CHR 0x82, CHR 0x83, CHR 0x84, CHR 0x85, CHR 0x86, CHR 0x87,
          CHR 0x88, CHR 0x89, CHR 0x8A, CHR 0xA8, CHR 0xA9, CHR 0xAF]
     @ [[CHR 0xE2, CHR 0x81, CHR 0x9F], [CHR 0xE3, CHR 0x80, CHR 0x80],
        [CHR 0xEF, CHR 0xBB, CHR 0xBF]]"

text \<open>What is left of \<open>s\<close> when the members of \<open>ws\<close> at its start are removed.\<close>

function strip_start :: "string list \<Rightarrow> string \<Rightarrow> string" where
  "strip_start ws s =
     (case find (\<lambda>w. w \<noteq> [] \<and> take (length w) s = w) ws of
        None \<Rightarrow> s
      | Some w \<Rightarrow> strip_start ws (drop (length w) s))"
  by pat_completeness auto
termination
proof (relation "measure (\<lambda>(ws, s). length s)")
  show "wf (measure (\<lambda>(ws, s). length s))"
    by simp
next
  fix ws :: "string list" and s w :: string
  assume "find (\<lambda>w. w \<noteq> [] \<and> take (length w) s = w) ws = Some w"
  then have "w \<noteq> []" and "take (length w) s = w"
    by (auto simp add: find_Some_iff)
  then have "s \<noteq> []"
    by auto
  then show "((ws, drop (length w) s), (ws, s)) \<in> measure (\<lambda>(ws, s). length s)"
    using \<open>w \<noteq> []\<close> by simp
qed

declare strip_start.simps [simp del]

text \<open>\<open>String.prototype.trim\<close>\<close>

definition trim :: "string \<Rightarrow> string" where
  "trim s = rev (strip_start (map rev white_space) (rev (strip_start white_space s)))"

text \<open>
  \<open>s.length\<close>: the number of UTF-16 code units of the string. A byte below 0x80 and the
  first byte of a sequence of two or three bytes stand for one unit, the first byte
  of a sequence of four bytes for two, a continuation byte for none.
\<close>

definition utf16_units :: "char \<Rightarrow> nat" where
  "utf16_units c =
     (let b = (of_char c :: nat)
      in if b < 128 then 1 else if b < 192 then 0 else if b < 240 then 1 else 2)"

definition js_length :: "string \<Rightarrow> nat" where
  "js_length s = sum_list (map utf16_units s)"

text \<open>
  \<open>SupportRequest.create\<close> with the schema of models/SupportRequest.js: the string
  fields are trimmed and the email is put in lower case; \<open>subject\<close>, \<open>description\<close>
  and \<open>email\<close> are required (a required string must not be empty) and \<open>subject\<close> has at
  most 200 characters; \<open>status\<close> and \<open>priority\<close> take their defaults. A document that
  fails a validator is not stored: \<open>create\<close> throws a ValidationError whose message
  lists the failures. \<open>toLowerCase\<close> above changes the ASCII letters only.
\<close>

definition validation_errors :: "string \<Rightarrow> string \<Rightarrow> string \<Rightarrow> string list" where
  "validation_errors subject description email =
     (if subject = [] then [''subject: Subject is required'']
      else if 200 < js_length subject then [''subject: Subject cannot exceed 200 characters'']
      else [])
     @ (if description = [] then [''description: Description is required''] else [])
     @ (if email = [] then [''email: Path `email` is required.''] else [])"

fun join :: "string \<Rightarrow> string list \<Rightarrow> string" where
  "join sep [] = []"
| "join sep [s] = s"
| "join sep (s # t # ss) = s @ sep @ join sep (t # ss)"

text \<open>
  The ObjectIds of a new document and of its attachments are numbers that no stored
  support request and no stored attachment has.
\<close>

definition fresh_request_id :: "support_request list \<Rightarrow> nat" where
  "fresh_request_id rs =
     Suc (foldr max (concat (map (\<lambda>r. sr_id r # map a_id (sr_attachments r)) rs)) 0)"

fun embed_attachments :: "nat \<Rightarrow> attachment list \<Rightarrow> embedded_attachment list" where
  "embed_attachments i [] = []"
| "embed_attachments i (a # rest) =
     \<lparr>a_filename = a_filename a, a_path = a_path a, a_mimetype = a_mimetype a,
      a_size = a_size a, a_id = i\<rparr> # embed_attachments (Suc i) rest"

definition SupportRequest_create ::
  "io \<Rightarrow> support_request list \<Rightarrow> string \<Rightarrow> string \<Rightarrow> string \<Rightarrow> string \<Rightarrow> attachment list
     \<Rightarrow> nat option \<Rightarrow> exn + (support_request list \<times> support_request)" where
  "SupportRequest_create io rs subject description phoneNumber email attachments userId =
     (let subject' = trim subject;
          description' = trim description;
          email' = toLowerCase (trim email);
          errs = validation_errors subject' description' email'
      in if errs \<noteq> []
         then Inl (Exn ValidationError (''SupportRequest validation failed: '' @ join '', '' errs))
         else
           (case io_fault io SupportRequestCreate of
              Some m \<Rightarrow> Inl (Exn MongooseError m)
            | None \<Rightarrow>
                let doc = \<lparr>sr_id = fresh_request_id rs, sr_subject = subject',
                             sr_description = description', sr_phoneNumber = trim phoneNumber,
                             sr_email = email',
                             sr_attachments =
                               embed_attachments (Suc (fresh_request_id rs)) attachments,
                             sr_status = ''pending'', sr_priority = ''medium'',
                             sr_userId = userId, sr_createdAt = io_now io,
                             sr_updatedAt = io_now io, sr_v = 0\<rparr>
                in Inr (rs @ [doc], doc)))"

text \<open>
  The document as JSON (\<open>data: supportRequest\<close>). The keys stand in the order of the
  schema, followed by \<open>_id\<close>, the timestamps and \<open>__v\<close>; the order in which mongoose
  writes the keys of an object is not modelled (it has no meaning in JSON).
\<close>

definition attachment_json :: "embedded_attachment \<Rightarrow> json" where
  "attachment_json a =
     JObj [(''filename'', JStr (a_filename a)), (''path'', JStr (a_path a)),
           (''mimetype'', JStr (a_mimetype a)), (''size'', JNum (a_size a)),
           (''_id'', JNum (a_id a))]"

definition support_request_json :: "support_request \<Rightarrow> json" where
  "support_request_json r =
     JObj [(''subject'', JStr (sr_subject r)),
           (''description'', JStr (sr_description r)),
           (''phoneNumber'', JStr (sr_phoneNumber r)), (''email'', JStr (sr_email r)),
           (''attachments'', JArr (map attachment_json (sr_attachments r))),
           (''status'', JStr (sr_status r)), (''priority'', JStr (sr_priority r)),
           (''userId'', (case sr_userId r of None \<Rightarrow> JNull | Some i \<Rightarrow> JNum i)),
           (''_id'', JNum (sr_id r)),
           (''createdAt'', JNum (sr_createdAt r)), (''updatedAt'', JNum (sr_updatedAt r)),
           (''__v'', JNum (sr_v r))]"

text \<open>
  The request of \<open>createSupportRequest\<close>: the text fields of the form, its file parts,
  and \<open>req.user\<close> (the id of the authenticated user, when there is one).
\<close>

record support_form =
  req_subject :: "string option"
  req_description :: "string option"
  req_phoneNumber :: "string option"
  req_email :: "string option"
  req_files :: "uploaded_file list"
  req_user :: "nat option"

definition upload_error_response :: "exn \<Rightarrow> response" where
  "upload_error_response err =
     (if exn_class err = MulterError
      then json_fail 400 (''File upload error: '' @ exn_message err)
      else json_fail 400 (exn_message err))"

definition createSupportRequest :: "io \<Rightarrow> world \<Rightarrow> support_form \<Rightarrow> world \<times> response" where
  "createSupportRequest io w req =
     (case upload io (req_files req) of
        Inl err \<Rightarrow> (w, upload_error_response err)
      | Inr files \<Rightarrow>
          if falsy (req_subject req) \<or> falsy (req_description req) \<or> falsy (req_email req)
          then
            (w, \<lparr>status = 400,
                 body = JObj [(''success'', JBool False),
                              (''message'', JStr ''Subject, description, and email are required''),
                              (''received'',
                                 JObj [(''subject'', JBool (\<not> falsy (req_subject req))),
                                       (''description'', JBool (\<not> falsy (req_description req))),
                                       (''email'', JBool (\<not> falsy (req_email req)))])]\<rparr>)
          else
            (let attachments =
                   map (\<lambda>file. \<lparr>a_filename = f_originalname file, a_path = f_path file,
                                  a_mimetype = f_mimetype file, a_size = f_size file\<rparr>) files;
                 phoneNumber = or_empty (req_phoneNumber req)
             in case SupportRequest_create io (supportRequests w) (or_empty (req_subject req))
                       (or_empty (req_description req)) phoneNumber (or_empty (req_email req))
                       attachments (req_user req) of
                  Inl error \<Rightarrow>
                    (log_error w ''Error creating support request:'' error,
                     \<lparr>status = 500,
                      body = JObj [(''success'', JBool False),
                                   (''message'', JStr ''Failed to submit support request''),
                                   (''error'', JStr (exn_message error))]\<rparr>)
                | Inr (rs', doc) \<Rightarrow>
                    (w\<lparr>supportRequests := rs'\<rparr>,
                     \<lparr>status = 201,
                      body = JObj [(''success'', JBool True),
                                   (''message'', JStr ''Support request submitted successfully''),
                                   (''data'', support_request_json doc)]\<rparr>)))"

section \<open>The routes\<close>

text \<open>
  The requests the routers dispatch to the controllers above. A request to
  \<open>GET /api/auth/profile\<close> reaches \<open>getUserProfile\<close> behind the access-control
  middleware, with the user id that middleware took from the bearer token.
\<close>

datatype request =
    Signup "string option" "string option" "string option"
  | Login "string option" "string option"
  | GoogleAuth "string option"
  | VerifyToken "jwt option"
  | GetUserProfile nat
  | CreateSupportRequest support_form

fun handle :: "config \<Rightarrow> io \<Rightarrow> world \<Rightarrow> request \<Rightarrow> world \<times> response" where
  "handle cfg io w (Signup name email password) = signup cfg io w name email password"
| "handle cfg io w (Login email password) = login cfg io w email password"
| "handle cfg io w (GoogleAuth credential) = googleAuth cfg io w credential"
| "handle cfg io w (VerifyToken token) = verifyToken cfg io w token"
| "handle cfg io w (GetUserProfile i) = getUserProfile cfg io w i"
| "handle cfg io w (CreateSupportRequest req) = createSupportRequest io w req"

text \<open>The state after a sequence of requests, each with what the world did during it.\<close>

fun serve :: "config \<Rightarrow> world \<Rightarrow> (io \<times> request) list \<Rightarrow> world" where
  "serve cfg w [] = w"
| "serve cfg w ((io, r) # rs) = serve cfg (fst (handle cfg io w r)) rs"

definition initial_world :: world where
  "initial_world = \<lparr>users = [], supportRequests = [], console_error = []\<rparr>"

section \<open>Concrete inputs\<close>

text \<open>
  A configuration, a world and a store to run the controllers on. The stand-in for
  bcrypt writes the salt, a \<open>$\<close> and the password, and compares what follows the first
  \<open>$\<close>. Google accepts the credential \<open>good-credential\<close>, for Ann, and the credential
  \<open>bob-credential\<close>, for Bob.
\<close>

definition sample_config :: config where
  "sample_config =
     \<lparr>JWT_SECRET = ''s3cret'', GOOGLE_CLIENT_ID = ''client-1'',
      bcrypt_hash = (\<lambda>password salt. salt @ ''$'' @ password),
      bcrypt_compare = (\<lambda>password hash. tl (dropWhile (\<lambda>c. c \<noteq> CHR ''$'') hash) = password)\<rparr>"

definition sample_io :: io where
  "sample_io =
     \<lparr>io_now = 1700000000000, io_salt = ''salt'', io_random = (\<lambda>i. 42 + i),
      io_google = (\<lambda>credential audience.
         if credential = ''good-credential'' \<and> audience = ''client-1''
         then Inr \<lparr>g_email = ''ann@x.com'', g_name = ''Ann'', g_sub = ''sub-1''\<rparr>
         else if credential = ''bob-credential'' \<and> audience = ''client-1''
         then Inr \<lparr>g_email = ''Bob@X.com'', g_name = ''Bob'', g_sub = ''sub-9''\<rparr>
         else Inl (Exn Error ''Wrong number of segments in token'')),
      io_fault = (\<lambda>c. None), io_exact_limit_too_large = True\<rparr>"

definition ann :: user where
  "ann = \<lparr>u_id = 1, u_name = ''Ann'', u_email = ''ann@x.com'', u_password = Some ''salt$secret123'',
          u_authProvider = ''local'', u_googleId = None, u_createdAt = 1600000000000\<rparr>"

definition bob :: user where
  "bob = \<lparr>u_id = 2, u_name = ''Bob'', u_email = ''bob@x.com'', u_password = None,
          u_authProvider = ''google'', u_googleId = Some ''sub-2'', u_createdAt = 1600000000001\<rparr>"

definition sample_world :: world where
  "sample_world = \<lparr>users = [ann, bob], supportRequests = [], console_error = []\<rparr>"

text \<open>
  A screenshot and a macro-enabled Word document as file parts of a form, a support
  form with the screenshot, and a world in which every database call fails.
\<close>

definition screenshot :: uploaded_file where
  "screenshot =
     \<lparr>f_fieldname = ''attachments'', f_originalname = ''screen.PNG'',
      f_mimetype = ''image/png'', f_size = 1024\<rparr>"

definition macro_docm :: uploaded_file where
  "macro_docm =
     \<lparr>f_fieldname = ''attachments'', f_originalname = ''macro.docm'',
      f_mimetype = ''application/vnd.ms-word.document.macroEnabled.12'', f_size = 1024\<rparr>"

definition sample_form :: support_form where
  "sample_form =
     \<lparr>req_subject = Some ''Login problem'', req_description = Some ''I cannot log in'',
      req_phoneNumber = None, req_email = Some ''Ann@X.com'',
      req_files = [screenshot], req_user = None\<rparr>"


section \<open>Predicates of the properties\<close>

text \<open>
  What a response shows of a user: when it has a \<open>data.user\<close> object, the keys of that
  object are \<open>id\<close>, \<open>name\<close>, \<open>email\<close> (and \<open>createdAt\<close> for the profile), and no
  object anywhere in the response has a key \<open>password\<close> or \<open>googleId\<close>.
\<close>

definition response_user :: "response \<Rightarrow> json option" where
  "response_user r = (case jget ''data'' (body r) of None \<Rightarrow> None | Some d \<Rightarrow> jget ''user'' d)"

definition summary_only :: "response \<Rightarrow> bool" where
  "summary_only r =
     ((case response_user r of
         None \<Rightarrow> True
       | Some j \<Rightarrow> json_keys j = [''id'', ''name'', ''email'']
                  \<or> json_keys j = [''id'', ''name'', ''email'', ''createdAt''])
      \<and> ''password'' \<notin> set (all_keys (body r))
      \<and> ''googleId'' \<notin> set (all_keys (body r)))"

text \<open>
  The store is in order when no two of its users share an id and no two share an
  email (compared as the lookup compares emails).
\<close>

definition store_ok :: "user list \<Rightarrow> bool" where
  "store_ok us =
     (distinct (map u_id us) \<and> distinct (map (\<lambda>u. toLowerCase (u_email u)) us))"

text \<open>
  The limits on the number and the size of uploads: the file parts of a request are
  within them when at most 5 parts have a file name and each of those has at most
  5 MB (5 * 1024 * 1024 bytes).
\<close>

definition named_parts :: "uploaded_file list \<Rightarrow> uploaded_file list" where
  "named_parts parts = filter (\<lambda>f. f_originalname f \<noteq> []) parts"

definition within_count_and_size :: "uploaded_file list \<Rightarrow> bool" where
  "within_count_and_size parts =
     (length (named_parts parts) \<le> 5
      \<and> list_all (\<lambda>f. f_size f \<le> 5 * 1024 * 1024) (named_parts parts))"

section \<open>Properties\<close>

lemma falsy_simps: "falsy None" "falsy (Some s) = (s = [])"
  by (simp_all add: falsy_def)

lemma db_call_ok: "io_fault io c = None \<Longrightarrow> db_call io c v = Inr v"
  by (simp add: db_call_def)


lemma findByEmail_ok:
  "io_fault io FindByEmail = None \<Longrightarrow> User_findByEmail io us e = Inr (find (same_email e) us)"
  by (simp add: User_findByEmail_def db_call_ok)

lemma findById_ok:
  "io_fault io FindById = None \<Longrightarrow> User_findById io us i = Inr (find (\<lambda>u. u_id u = i) us)"
  by (simp add: User_findById_def db_call_ok)

lemma sample_io_simps:
  "io_fault sample_io c = None" "io_now sample_io = 1700000000000" "io_salt sample_io = ''salt''"
  by (simp_all add: sample_io_def)

lemma same_email_samples:
  "same_email ''ann@x.com'' ann" "\<not> same_email ''ann@x.com'' bob"
  "\<not> same_email ''bob@x.com'' ann" "same_email ''bob@x.com'' bob"
  "\<not> same_email ''nobody@x.com'' ann" "\<not> same_email ''nobody@x.com'' bob"
  by (simp_all add: same_email_def toLowerCase_def toLowerCase_char_def ann_def bob_def)

subsection \<open>login\<close>

text \<open>
  C1, as the code has it. For a login request with an email and a password, when the
  lookup itself does not fail: if no user matches the email, the answer is 401 with
  the message \<open>Invalid credentials\<close>; if the user is a Google user without a password,
  the answer is 401 with the message \<open>Please sign in with Google\<close>; if the user has a
  password hash that does not verify, the answer is 401 with the message
  \<open>Invalid credentials\<close>. So the three cases share the status code 401 and
  \<open>success: false\<close>, the first and the third give one and the same response, and the
  second differs from them in its message. The state is left as it was.
\<close>

theorem login_failure_responses:
  assumes "email \<noteq> []" and "password \<noteq> []" and "io_fault io FindByEmail = None"
  shows "(find (same_email email) (users w) = None \<longrightarrow>
            login cfg io w (Some email) (Some password)
              = (w, \<lparr>status = 401,
                     body = JObj [(''success'', JBool False), (''message'', JStr ''Invalid credentials'')]\<rparr>))
       \<and> (\<forall>u. find (same_email email) (users w) = Some u
              \<and> u_authProvider u = ''google'' \<and> falsy (u_password u) \<longrightarrow>
            login cfg io w (Some email) (Some password)
              = (w, \<lparr>status = 401,
                     body = JObj [(''success'', JBool False), (''message'', JStr ''Please sign in with Google'')]\<rparr>))
       \<and> (\<forall>u h. find (same_email email) (users w) = Some u \<and> u_password u = Some h
              \<and> \<not> (u_authProvider u = ''google'' \<and> h = [])
              \<and> \<not> bcrypt_compare cfg password h \<longrightarrow>
            login cfg io w (Some email) (Some password)
              = (w, \<lparr>status = 401,
                     body = JObj [(''success'', JBool False), (''message'', JStr ''Invalid credentials'')]\<rparr>))"
  using assms
  by (simp add: login_def findByEmail_ok bcrypt_compare_js_def falsy_simps json_fail_def)

theorem login_failure_responses_witness:
  "login sample_config sample_io sample_world (Some ''nobody@x.com'') (Some ''secret123'')
     = (sample_world, \<lparr>status = 401,
                       body = JObj [(''success'', JBool False), (''message'', JStr ''Invalid credentials'')]\<rparr>)
   \<and> login sample_config sample_io sample_world (Some ''bob@x.com'') (Some ''secret123'')
     = (sample_world, \<lparr>status = 401,
                       body = JObj [(''success'', JBool False), (''message'', JStr ''Please sign in with Google'')]\<rparr>)
   \<and> login sample_config sample_io sample_world (Some ''ann@x.com'') (Some ''wrong'')
     = (sample_world, \<lparr>status = 401,
                       body = JObj [(''success'', JBool False), (''message'', JStr ''Invalid credentials'')]\<rparr>)"
proof -
  have nobody: "find (same_email ''nobody@x.com'') (users sample_world) = None"
    by (simp add: sample_world_def same_email_samples)
  have bob: "find (same_email ''bob@x.com'') (users sample_world) = Some bob"
    by (simp add: sample_world_def same_email_samples)
  have bob': "u_authProvider bob = ''google''" "falsy (u_password bob)"
    by (simp_all add: bob_def falsy_simps)
  have ann: "find (same_email ''ann@x.com'') (users sample_world) = Some ann"
    by (simp add: sample_world_def same_email_samples)
  have ann': "u_password ann = Some ''salt$secret123''"
    "\<not> bcrypt_compare sample_config ''wrong'' ''salt$secret123''"
    by (simp_all add: ann_def sample_config_def)
  have "login sample_config sample_io sample_world (Some ''nobody@x.com'') (Some ''secret123'')
          = (sample_world, \<lparr>status = 401,
                            body = JObj [(''success'', JBool False), (''message'', JStr ''Invalid credentials'')]\<rparr>)"
    using login_failure_responses [of "''nobody@x.com''" "''secret123''" sample_io sample_world
        sample_config] nobody
    by (simp add: sample_io_simps)
  moreover have "login sample_config sample_io sample_world (Some ''bob@x.com'') (Some ''secret123'')
          = (sample_world, \<lparr>status = 401,
                            body = JObj [(''success'', JBool False), (''message'', JStr ''Please sign in with Google'')]\<rparr>)"
    using login_failure_responses [of "''bob@x.com''" "''secret123''" sample_io sample_world
        sample_config] bob bob'
    by (simp add: sample_io_simps)
  moreover have "login sample_config sample_io sample_world (Some ''ann@x.com'') (Some ''wrong'')
          = (sample_world, \<lparr>status = 401,
                            body = JObj [(''success'', JBool False), (''message'', JStr ''Invalid credentials'')]\<rparr>)"
    using login_failure_responses [of "''ann@x.com''" "''wrong''" sample_io sample_world
        sample_config] ann ann'
    by (simp add: sample_io_simps)
  ultimately show ?thesis by simp
qed

text \<open>
  C1 as stated fails: against the sample store, a login for Bob (a Google user without
  a password) and a login for an email that no user has get different responses, so
  the caller can tell the two cases apart.
\<close>

theorem login_federated_only_distinguishable:
  "snd (login sample_config sample_io sample_world (Some ''bob@x.com'') (Some ''secret123''))
     \<noteq> snd (login sample_config sample_io sample_world (Some ''nobody@x.com'') (Some ''secret123''))"
proof -
  have "find (same_email ''bob@x.com'') (users sample_world) = Some bob"
    and "find (same_email ''nobody@x.com'') (users sample_world) = None"
    by (simp_all add: sample_world_def same_email_samples)
  then show ?thesis
    by (simp add: login_def findByEmail_ok sample_io_simps bob_def falsy_simps json_fail_def)
qed


subsection \<open>verifyToken\<close>

text \<open>
  C3. \<open>verifyToken\<close> answers 400 \<open>Token is required\<close> when the token is absent (or the
  empty string); 401 \<open>Invalid or expired token\<close> whenever the token verifier fails,
  whatever the failure; 401 \<open>Invalid token\<close> when the token verifies and no user has
  the id it carries; and otherwise 200 with the user's \<open>id\<close>, \<open>name\<close> and \<open>email\<close>,
  and nothing else of the user. The state is left as it was.
\<close>

theorem verifyToken_responses:
  "verifyToken cfg io w None = (w, \<lparr>status = 400,
                                    body = JObj [(''success'', JBool False), (''message'', JStr ''Token is required'')]\<rparr>)
   \<and> verifyToken cfg io w (Some (NotAToken [])) = (w, \<lparr>status = 400,
                                                       body = JObj [(''success'', JBool False), (''message'', JStr ''Token is required'')]\<rparr>)
   \<and> (\<forall>t e. t \<noteq> NotAToken [] \<and> jwt_verify t (JWT_SECRET cfg) (io_now io div 1000) = Inl e \<longrightarrow>
          verifyToken cfg io w (Some t) = (w, \<lparr>status = 401,
                                               body = JObj [(''success'', JBool False), (''message'', JStr ''Invalid or expired token'')]\<rparr>))
   \<and> (\<forall>t p. jwt_verify t (JWT_SECRET cfg) (io_now io div 1000) = Inr p
          \<and> io_fault io FindById = None
          \<and> find (\<lambda>u. u_id u = jwt_id p) (users w) = None \<longrightarrow>
          verifyToken cfg io w (Some t) = (w, \<lparr>status = 401,
                                               body = JObj [(''success'', JBool False), (''message'', JStr ''Invalid token'')]\<rparr>))
   \<and> (\<forall>t p u. jwt_verify t (JWT_SECRET cfg) (io_now io div 1000) = Inr p
          \<and> io_fault io FindById = None
          \<and> find (\<lambda>u. u_id u = jwt_id p) (users w) = Some u \<longrightarrow>
          verifyToken cfg io w (Some t)
            = (w, \<lparr>status = 200,
                   body = JObj [(''success'', JBool True),
                                (''data'', JObj [(''user'',
                                   JObj [(''id'', JNum (u_id u)), (''name'', JStr (u_name u)),
                                         (''email'', JStr (u_email u))])])]\<rparr>))"
  by (auto simp add: verifyToken_def findById_ok user_json_def jwt_verify_def json_fail_def)

theorem verifyToken_responses_witness:
  "verifyToken sample_config sample_io sample_world
       (Some (Signed \<lparr>jwt_id = 1, jwt_iat = 0, jwt_exp = 5\<rparr> ''s3cret''))
     = (sample_world, \<lparr>status = 401,
                       body = JObj [(''success'', JBool False), (''message'', JStr ''Invalid or expired token'')]\<rparr>)
   \<and> verifyToken sample_config sample_io sample_world
       (Some (generateToken sample_config sample_io 7))
     = (sample_world, \<lparr>status = 401,
                       body = JObj [(''success'', JBool False), (''message'', JStr ''Invalid token'')]\<rparr>)
   \<and> verifyToken sample_config sample_io sample_world
       (Some (generateToken sample_config sample_io 1))
     = (sample_world,
        \<lparr>status = 200,
         body = JObj [(''success'', JBool True),
                      (''data'', JObj [(''user'',
                         JObj [(''id'', JNum 1), (''name'', JStr ''Ann''),
                               (''email'', JStr ''ann@x.com'')])])]\<rparr>)"
proof -
  let ?clock = "io_now sample_io div 1000"
  let ?old = "Signed \<lparr>jwt_id = 1, jwt_iat = 0, jwt_exp = 5\<rparr> ''s3cret''"
  have expired: "?old \<noteq> NotAToken []"
    "jwt_verify ?old (JWT_SECRET sample_config) ?clock = Inl (Exn TokenExpiredError ''jwt expired'')"
    by (simp_all add: jwt_verify_def sample_config_def sample_io_simps)
  have fresh: "jwt_verify (generateToken sample_config sample_io i) (JWT_SECRET sample_config) ?clock
      = Inr \<lparr>jwt_id = i, jwt_iat = 1700000000, jwt_exp = 1702592000\<rparr>" for i
    by (simp add: jwt_verify_def generateToken_def jwt_sign_def expiresIn_30d_def sample_io_simps)
  have nobody: "find (\<lambda>u. u_id u = 7) (users sample_world) = None"
    by (simp add: sample_world_def ann_def bob_def)
  have ann: "find (\<lambda>u. u_id u = 1) (users sample_world) = Some ann"
    by (simp add: sample_world_def ann_def bob_def)
  note facts = verifyToken_responses [of sample_config sample_io sample_world]
  have "verifyToken sample_config sample_io sample_world (Some ?old)
      = (sample_world, \<lparr>status = 401,
                        body = JObj [(''success'', JBool False), (''message'', JStr ''Invalid or expired token'')]\<rparr>)"
    using facts expired by blast
  moreover have "verifyToken sample_config sample_io sample_world
        (Some (generateToken sample_config sample_io 7))
      = (sample_world, \<lparr>status = 401,
                        body = JObj [(''success'', JBool False), (''message'', JStr ''Invalid token'')]\<rparr>)"
    using facts fresh [of 7] nobody sample_io_simps(1) [of FindById]
    by (metis jwt_payload.select_convs(1))
  moreover have "verifyToken sample_config sample_io sample_world
        (Some (generateToken sample_config sample_io 1))
      = (sample_world,
         \<lparr>status = 200,
          body = JObj [(''success'', JBool True),
                       (''data'', JObj [(''user'',
                          JObj [(''id'', JNum (u_id ann)), (''name'', JStr (u_name ann)),
                                (''email'', JStr (u_email ann))])])]\<rparr>)"
    using facts fresh [of 1] ann sample_io_simps(1) [of FindById]
    by (metis jwt_payload.select_convs(1))
  ultimately show ?thesis
    by (simp add: ann_def)
qed

subsection \<open>signup\<close>



subsection \<open>googleAuth\<close>

lemma same_email_pred_eq:
  "same_email e u \<Longrightarrow> same_email e' u \<Longrightarrow> same_email e = same_email e'"
  by (auto simp add: same_email_def fun_eq_iff)

lemma find_replace_by_id:
  assumes "find P us = Some u" and "P u'"
  shows "find P (map (\<lambda>v. if u_id v = u_id u then u' else v) us) = Some u'"
  using assms by (induction us) (auto split: if_splits)



text \<open>
  C2. When the credential verifies to an email for which a user with
  \<open>authProvider = 'local'\<close> exists, and the database does not fail, \<open>googleAuth\<close>
  replaces that user by the same user with \<open>authProvider = 'google'\<close> and the asserted
  subject id as \<open>googleId\<close>; the password hash is the one the user had. It answers
  200 \<open>Google authentication successful\<close> with the user's \<open>id\<close>, \<open>name\<close> and \<open>email\<close>
  and a token for the user's id. A later login under that email with a password that
  verifies against the (non-empty) hash the user had answers 200 \<open>Login successful\<close>
  with the user's \<open>id\<close>, \<open>name\<close> and \<open>email\<close> and a token for the user's id.
\<close>

theorem googleAuth_links_local_account:
  assumes "credential \<noteq> []"
    and "io_google io credential (GOOGLE_CLIENT_ID cfg) = Inr payload"
    and "io_fault io FindByEmail = None"
    and "io_fault io Save = None"
    and "find (same_email (g_email payload)) (users w) = Some u"
    and "u_authProvider u = ''local''"
  shows "(let u' = u\<lparr>u_googleId := Some (g_sub payload), u_authProvider := ''google''\<rparr>;
              w' = w\<lparr>users := map (\<lambda>v. if u_id v = u_id u then u' else v) (users w)\<rparr>
          in googleAuth cfg io w (Some credential)
               = (w', \<lparr>status = 200,
                       body = JObj [(''success'', JBool True),
                                    (''message'', JStr ''Google authentication successful''),
                                    (''data'', JObj [(''user'',
                                        JObj [(''id'', JNum (u_id u)), (''name'', JStr (u_name u)),
                                              (''email'', JStr (u_email u))]),
                                      (''token'', JTok (generateToken cfg io (u_id u)))])]\<rparr>)
             \<and> find (same_email (g_email payload)) (users w') = Some u'
             \<and> u_authProvider u' = ''google''
             \<and> u_googleId u' = Some (g_sub payload)
             \<and> u_password u' = u_password u
             \<and> (\<forall>io' email password h.
                   email \<noteq> [] \<and> password \<noteq> [] \<and> io_fault io' FindByEmail = None
                   \<and> same_email email u
                   \<and> u_password u = Some h \<and> h \<noteq> [] \<and> bcrypt_compare cfg password h \<longrightarrow>
                   login cfg io' w' (Some email) (Some password)
                     = (w', \<lparr>status = 200,
                             body = JObj [(''success'', JBool True),
                                          (''message'', JStr ''Login successful''),
                                          (''data'', JObj [(''user'',
                                              JObj [(''id'', JNum (u_id u)),
                                                    (''name'', JStr (u_name u)),
                                                    (''email'', JStr (u_email u))]),
                                            (''token'',
                                             JTok (generateToken cfg io' (u_id u)))])]\<rparr>)))"
proof -
  define u' where "u' = u\<lparr>u_googleId := Some (g_sub payload), u_authProvider := ''google''\<rparr>"
  define w' where "w' = w\<lparr>users := map (\<lambda>v. if u_id v = u_id u then u' else v) (users w)\<rparr>"
  have matches: "same_email (g_email payload) u"
    using assms(5) by (auto simp add: find_Some_iff)
  then have matches': "same_email (g_email payload) u'"
    by (simp add: same_email_def u'_def)
  have found': "find (same_email (g_email payload)) (users w') = Some u'"
    using find_replace_by_id [OF assms(5) matches'] by (simp add: w'_def)
  have linked: "googleAuth cfg io w (Some credential)
      = (w', \<lparr>status = 200,
              body = JObj [(''success'', JBool True),
                           (''message'', JStr ''Google authentication successful''),
                           (''data'', JObj [(''user'',
                               JObj [(''id'', JNum (u_id u)), (''name'', JStr (u_name u)),
                                     (''email'', JStr (u_email u))]),
                             (''token'', JTok (generateToken cfg io (u_id u)))])]\<rparr>)"
    using assms
    by (simp add: googleAuth_def findByEmail_ok User_save_def db_call_ok googleAuth_success_def
        auth_success_def user_json_def u'_def w'_def Let_def)
  have later: "login cfg io' w' (Some email) (Some password)
      = (w', \<lparr>status = 200,
              body = JObj [(''success'', JBool True),
                           (''message'', JStr ''Login successful''),
                           (''data'', JObj [(''user'',
                               JObj [(''id'', JNum (u_id u)), (''name'', JStr (u_name u)),
                                     (''email'', JStr (u_email u))]),
                             (''token'', JTok (generateToken cfg io' (u_id u)))])]\<rparr>)"
    if "email \<noteq> []" "password \<noteq> []" "io_fault io' FindByEmail = None" "same_email email u"
      "u_password u = Some h" "h \<noteq> []" "bcrypt_compare cfg password h"
    for io' email password h
  proof -
    have "same_email email = same_email (g_email payload)"
      using that(4) matches by (rule same_email_pred_eq)
    then have "find (same_email email) (users w') = Some u'"
      using found' by simp
    moreover have "u_password u' = Some h" "u_id u' = u_id u" "u_name u' = u_name u"
      "u_email u' = u_email u"
      using that(5) by (simp_all add: u'_def)
    ultimately show ?thesis
      using that
      by (simp add: login_def findByEmail_ok falsy_simps bcrypt_compare_js_def auth_success_def
          user_json_def)
  qed
  have "u_authProvider u' = ''google''" "u_googleId u' = Some (g_sub payload)"
    "u_password u' = u_password u"
    by (simp_all add: u'_def)
  with linked found' later show ?thesis
    unfolding Let_def u'_def [symmetric] w'_def [symmetric] by blast
qed

theorem googleAuth_links_local_account_witness:
  "(let ann' = ann\<lparr>u_googleId := Some ''sub-1'', u_authProvider := ''google''\<rparr>;
        w' = sample_world\<lparr>users := [ann', bob]\<rparr>
    in googleAuth sample_config sample_io sample_world (Some ''good-credential'')
         = (w', \<lparr>status = 200,
                 body = JObj [(''success'', JBool True),
                              (''message'', JStr ''Google authentication successful''),
                              (''data'', JObj [(''user'',
                                  JObj [(''id'', JNum 1), (''name'', JStr ''Ann''),
                                        (''email'', JStr ''ann@x.com'')]),
                                (''token'', JTok (Signed \<lparr>jwt_id = 1, jwt_iat = 1700000000,
                                                           jwt_exp = 1702592000\<rparr> ''s3cret''))])]\<rparr>)
       \<and> u_password ann' = Some ''salt$secret123''
       \<and> login sample_config sample_io w' (Some ''ann@x.com'') (Some ''secret123'')
           = (w', \<lparr>status = 200,
                   body = JObj [(''success'', JBool True),
                                (''message'', JStr ''Login successful''),
                                (''data'', JObj [(''user'',
                                    JObj [(''id'', JNum 1), (''name'', JStr ''Ann''),
                                          (''email'', JStr ''ann@x.com'')]),
                                  (''token'', JTok (Signed \<lparr>jwt_id = 1, jwt_iat = 1700000000,
                                                             jwt_exp = 1702592000\<rparr> ''s3cret''))])]\<rparr>))"
proof -
  let ?payload = "\<lparr>g_email = ''ann@x.com'', g_name = ''Ann'', g_sub = ''sub-1''\<rparr>"
  let ?ann' = "ann\<lparr>u_googleId := Some ''sub-1'', u_authProvider := ''google''\<rparr>"
  let ?w' = "sample_world\<lparr>users := [?ann', bob]\<rparr>"
  let ?user = "JObj [(''id'', JNum (u_id ann)), (''name'', JStr (u_name ann)),
                     (''email'', JStr (u_email ann))]"
  have google: "io_google sample_io ''good-credential'' (GOOGLE_CLIENT_ID sample_config) = Inr ?payload"
    by (simp add: sample_io_def sample_config_def)
  have found: "find (same_email (g_email ?payload)) (users sample_world) = Some ann"
    by (simp add: sample_world_def same_email_samples)
  have provider: "u_authProvider ann = ''local''"
    by (simp add: ann_def)
  have later: "''ann@x.com'' \<noteq> [] \<and> ''secret123'' \<noteq> [] \<and> io_fault sample_io FindByEmail = None
      \<and> same_email ''ann@x.com'' ann
      \<and> u_password ann = Some ''salt$secret123'' \<and> ''salt$secret123'' \<noteq> []
      \<and> bcrypt_compare sample_config ''secret123'' ''salt$secret123''"
    by (simp add: sample_io_simps same_email_samples) (simp add: ann_def sample_config_def)
  have replaced: "map (\<lambda>v. if u_id v = u_id ann then a else v) (users sample_world) = [a, bob]" for a
    by (simp add: sample_world_def ann_def bob_def)
  have ann_fields: "u_id ann = 1" "u_name ann = ''Ann''" "u_email ann = ''ann@x.com''"
    by (simp_all add: ann_def)
  have token: "generateToken sample_config sample_io 1
      = Signed \<lparr>jwt_id = 1, jwt_iat = 1700000000, jwt_exp = 1702592000\<rparr> ''s3cret''"
    by (simp add: generateToken_def jwt_sign_def expiresIn_30d_def sample_io_simps
        sample_config_def)
  note fact = googleAuth_links_local_account [OF _ google sample_io_simps(1) sample_io_simps(1)
      found provider, unfolded Let_def replaced, simplified]
  have linked: "googleAuth sample_config sample_io sample_world (Some ''good-credential'')
      = (?w', \<lparr>status = 200,
               body = JObj [(''success'', JBool True),
                            (''message'', JStr ''Google authentication successful''),
                            (''data'', JObj [(''user'', ?user),
                              (''token'', JTok (generateToken sample_config sample_io (u_id ann)))])]\<rparr>)"
    using fact by (rule conjunct1)
  have again: "login sample_config sample_io ?w' (Some ''ann@x.com'') (Some ''secret123'')
      = (?w', \<lparr>status = 200,
               body = JObj [(''success'', JBool True),
                            (''message'', JStr ''Login successful''),
                            (''data'', JObj [(''user'', ?user),
                              (''token'', JTok (generateToken sample_config sample_io (u_id ann)))])]\<rparr>)"
    using fact later by blast
  have password: "u_password ?ann' = Some ''salt$secret123''"
    by (simp add: ann_def)
  from linked again password show ?thesis
    unfolding Let_def ann_fields token by (intro conjI)
qed

subsection \<open>Tokens\<close>

text \<open>
  C6. The token \<open>generateToken\<close> issues for a user id carries that id and expires 30
  days (2592000 seconds) after the time of issue. A token signed with the configured
  secret whose expiry time has passed is rejected: the verifier fails with a
  TokenExpiredError, and \<open>verifyToken\<close> answers 401 \<open>Invalid or expired token\<close>.
\<close>

theorem token_expiry:
  "generateToken cfg io userId
     = Signed \<lparr>jwt_id = userId, jwt_iat = io_now io div 1000,
               jwt_exp = io_now io div 1000 + 2592000\<rparr> (JWT_SECRET cfg)
   \<and> (\<forall>p io' w. jwt_exp p \<le> io_now io' div 1000 \<longrightarrow>
          jwt_verify (Signed p (JWT_SECRET cfg)) (JWT_SECRET cfg) (io_now io' div 1000)
            = Inl (Exn TokenExpiredError ''jwt expired'')
          \<and> verifyToken cfg io' w (Some (Signed p (JWT_SECRET cfg)))
            = (w, \<lparr>status = 401,
                   body = JObj [(''success'', JBool False), (''message'', JStr ''Invalid or expired token'')]\<rparr>))"
  by (simp add: generateToken_def jwt_sign_def expiresIn_30d_def jwt_verify_def verifyToken_def
      json_fail_def)

theorem token_expiry_witness:
  "generateToken sample_config sample_io 1
     = Signed \<lparr>jwt_id = 1, jwt_iat = 1700000000, jwt_exp = 1702592000\<rparr> ''s3cret''
   \<and> verifyToken sample_config (sample_io\<lparr>io_now := 1702592000000\<rparr>) sample_world
       (Some (Signed \<lparr>jwt_id = 1, jwt_iat = 1700000000, jwt_exp = 1702592000\<rparr> ''s3cret''))
     = (sample_world, \<lparr>status = 401,
                       body = JObj [(''success'', JBool False), (''message'', JStr ''Invalid or expired token'')]\<rparr>)"
proof -
  let ?p = "\<lparr>jwt_id = 1, jwt_iat = 1700000000, jwt_exp = 1702592000\<rparr>"
  let ?later = "sample_io\<lparr>io_now := 1702592000000\<rparr>"
  note fact = token_expiry [of sample_config sample_io 1]
  have "jwt_exp ?p \<le> io_now ?later div 1000"
    by simp
  with fact have "verifyToken sample_config ?later sample_world
      (Some (Signed ?p (JWT_SECRET sample_config)))
      = (sample_world, \<lparr>status = 401,
                        body = JObj [(''success'', JBool False), (''message'', JStr ''Invalid or expired token'')]\<rparr>)"
    by blast
  with fact show ?thesis
    by (simp add: sample_config_def sample_io_simps)
qed

subsection \<open>What a response shows of a user\<close>

lemma summary_only_json_fail: "summary_only (json_fail code msg)"
  by (simp add: summary_only_def response_user_def json_fail_def)

lemma summary_only_auth_success: "summary_only (auth_success code msg u token)"
  by (simp add: summary_only_def response_user_def auth_success_def user_json_def)

lemma summary_only_signup: "summary_only (snd (signup cfg io w name email password))"
  by (simp add: signup_def signup_catch_def summary_only_json_fail summary_only_auth_success
      Let_def split: option.splits sum.splits prod.splits)

lemma summary_only_login: "summary_only (snd (login cfg io w email password))"
  by (simp add: login_def login_catch_def summary_only_json_fail summary_only_auth_success
      split: option.splits sum.splits prod.splits)

lemma summary_only_googleAuth: "summary_only (snd (googleAuth cfg io w credential))"
  by (simp add: googleAuth_def googleAuth_catch_def googleAuth_success_def
      summary_only_json_fail summary_only_auth_success Let_def
      split: option.splits sum.splits prod.splits)

lemma summary_only_verifyToken: "summary_only (snd (verifyToken cfg io w token))"
  by (simp add: verifyToken_def summary_only_json_fail split: option.splits sum.splits)
    (simp add: summary_only_def response_user_def user_json_def)

lemma summary_only_getUserProfile: "summary_only (snd (getUserProfile cfg io w i))"
  by (simp add: getUserProfile_def summary_only_json_fail split: option.splits sum.splits)
    (simp add: summary_only_def response_user_def)

text \<open>
  C7. Whatever the request and the state, the response of \<open>signup\<close>, \<open>login\<close>,
  \<open>googleAuth\<close>, \<open>verifyToken\<close> and \<open>getUserProfile\<close> shows of a user at most the
  \<open>id\<close>, the \<open>name\<close> and the \<open>email\<close> (and \<open>createdAt\<close>), and has no \<open>password\<close> and
  no \<open>googleId\<close> key at any depth.
\<close>

theorem responses_exclude_secrets:
  "summary_only (snd (signup cfg io w name email password))
   \<and> summary_only (snd (login cfg io w email password))
   \<and> summary_only (snd (googleAuth cfg io w credential))
   \<and> summary_only (snd (verifyToken cfg io w token))
   \<and> summary_only (snd (getUserProfile cfg io w i))"
  by (simp add: summary_only_signup summary_only_login summary_only_googleAuth
      summary_only_verifyToken summary_only_getUserProfile)

theorem responses_exclude_secrets_witness:
  "response_user (snd (getUserProfile sample_config sample_io sample_world 1))
     = Some (JObj [(''id'', JNum 1), (''name'', JStr ''Ann''), (''email'', JStr ''ann@x.com''),
                   (''createdAt'', JNum 1600000000000)])
   \<and> summary_only (snd (getUserProfile sample_config sample_io sample_world 1))
   \<and> response_user (snd (login sample_config sample_io sample_world (Some ''ann@x.com'')
                             (Some ''secret123'')))
     = Some (JObj [(''id'', JNum 1), (''name'', JStr ''Ann''), (''email'', JStr ''ann@x.com'')])
   \<and> summary_only (snd (login sample_config sample_io sample_world (Some ''ann@x.com'')
                           (Some ''secret123'')))"
proof -
  have "find (\<lambda>u. u_id u = 1) (users sample_world) = Some ann"
    by (simp add: sample_world_def ann_def)
  then have profile:
    "response_user (snd (getUserProfile sample_config sample_io sample_world 1))
       = Some (JObj [(''id'', JNum 1), (''name'', JStr ''Ann''), (''email'', JStr ''ann@x.com''),
                     (''createdAt'', JNum 1600000000000)])"
    by (simp add: getUserProfile_def findById_ok sample_io_simps response_user_def ann_def)
  have "find (same_email ''ann@x.com'') (users sample_world) = Some ann"
    by (simp add: sample_world_def same_email_samples)
  then have login:
    "response_user (snd (login sample_config sample_io sample_world (Some ''ann@x.com'')
                           (Some ''secret123'')))
       = Some (JObj [(''id'', JNum 1), (''name'', JStr ''Ann''), (''email'', JStr ''ann@x.com'')])"
    by (simp add: login_def findByEmail_ok sample_io_simps response_user_def ann_def falsy_simps
        bcrypt_compare_js_def sample_config_def auth_success_def user_json_def)
  show ?thesis
    using responses_exclude_secrets [of sample_config sample_io sample_world
        "Some ''Ann''" "Some ''ann@x.com''" "Some ''secret123''" None None 1] profile login
    by simp
qed

subsection \<open>One user per email\<close>

lemma fresh_id_greater: "u \<in> set us \<Longrightarrow> u_id u < fresh_id us"
  unfolding fresh_id_def by (induction us) auto

lemma find_same_email_None:
  "find (same_email e) us = None \<Longrightarrow> toLowerCase e \<notin> set (map (\<lambda>u. toLowerCase (u_email u)) us)"
  by (auto simp add: find_None_iff same_email_def)

lemma User_create_result:
  assumes "User_create io us n e p g a = Inr (us', u)"
  shows "us' = us @ [u]" and "u_email u = e" and "u_id u = fresh_id us"
    and "find (same_email e) us = None" and "u_authProvider u = a" and "u_password u = p"
  using assms by (auto simp add: User_create_def Let_def split: option.splits)

lemma store_ok_create:
  assumes "store_ok us" and "User_create io us n e p g a = Inr (us', u)"
  shows "store_ok us'"
proof -
  note r = User_create_result [OF assms(2)]
  have "u_id u \<notin> set (map u_id us)"
    using fresh_id_greater [of _ us] r(3) by fastforce
  moreover have "toLowerCase (u_email u) \<notin> set (map (\<lambda>u. toLowerCase (u_email u)) us)"
    using find_same_email_None [OF r(4)] r(2) by simp
  ultimately show ?thesis
    using assms(1) r(1) by (simp add: store_ok_def)
qed

lemma store_ok_save:
  assumes "store_ok us" and "u \<in> set us" and "u_id u' = u_id u" and "u_email u' = u_email u"
  shows "store_ok (map (\<lambda>v. if u_id v = u_id u then u' else v) us)"
proof -
  let ?f = "\<lambda>v. if u_id v = u_id u then u' else v"
  have inj: "inj_on u_id (set us)"
    using assms(1) by (simp add: store_ok_def distinct_map)
  have same: "v = u" if "v \<in> set us" "u_id v = u_id u" for v
    using inj that assms(2) by (auto dest: inj_onD)
  have ids: "map u_id (map ?f us) = map u_id us"
    using assms(3) by (simp add: comp_def cong: map_cong)
  have emails:
    "map (\<lambda>v. toLowerCase (u_email v)) (map ?f us) = map (\<lambda>v. toLowerCase (u_email v)) us"
    using same assms(4) by (auto simp add: comp_def)
  show ?thesis
    using assms(1) by (simp only: store_ok_def ids emails)
qed

lemma find_append_new: "find P us = None \<Longrightarrow> P u \<Longrightarrow> find P (us @ [u]) = Some u"
  by (induction us) (auto split: if_splits)

lemma find_in_set: "find P us = Some u \<Longrightarrow> u \<in> set us"
  by (auto simp add: find_Some_iff)

lemma users_log_error: "users (log_error w label e) = users w"
  by (simp add: log_error_def)

lemma store_ok_signup:
  "store_ok (users w) \<Longrightarrow> store_ok (users (fst (signup cfg io w name email password)))"
  by (auto simp add: signup_def signup_catch_def users_log_error Let_def
      split: option.splits sum.splits prod.splits intro: store_ok_create)

lemma store_ok_googleAuth:
  assumes "store_ok (users w)"
  shows "store_ok (users (fst (googleAuth cfg io w credential)))"
proof -
  have saved: "store_ok us'"
    if "find (same_email e) (users w) = Some u"
      and "User_save io (users w) (u\<lparr>u_googleId := g, u_authProvider := a\<rparr>) = Inr us'"
    for e u g a us'
  proof -
    have "us' = map (\<lambda>v. if u_id v = u_id u then u\<lparr>u_googleId := g, u_authProvider := a\<rparr> else v)
                  (users w)"
      using that(2) by (auto simp add: User_save_def db_call_def split: option.splits)
    then show ?thesis
      using store_ok_save [OF assms find_in_set [OF that(1)], of "u\<lparr>u_googleId := g, u_authProvider := a\<rparr>"]
      by simp
  qed
  show ?thesis
    using assms
    by (auto simp add: googleAuth_def googleAuth_catch_def googleAuth_success_def users_log_error
        User_findByEmail_def db_call_def Let_def
        split: option.splits sum.splits prod.splits intro: store_ok_create saved)
qed

lemma users_login: "users (fst (login cfg io w email password)) = users w"
  by (simp add: login_def login_catch_def users_log_error
      split: option.splits sum.splits prod.splits)

lemma users_verifyToken: "users (fst (verifyToken cfg io w token)) = users w"
  by (simp add: verifyToken_def split: option.splits sum.splits)

lemma users_getUserProfile: "users (fst (getUserProfile cfg io w i)) = users w"
  by (simp add: getUserProfile_def users_log_error split: option.splits sum.splits)

lemma users_createSupportRequest: "users (fst (createSupportRequest io w req)) = users w"
  by (simp add: createSupportRequest_def users_log_error Let_def
      split: option.splits sum.splits prod.splits)

lemma store_ok_handle: "store_ok (users w) \<Longrightarrow> store_ok (users (fst (handle cfg io w r)))"
  by (cases r)
    (simp_all add: store_ok_signup store_ok_googleAuth users_login users_verifyToken
      users_getUserProfile users_createSupportRequest)

lemma store_ok_serve: "store_ok (users w) \<Longrightarrow> store_ok (users (serve cfg w rs))"
  by (induction rs arbitrary: w) (auto simp add: store_ok_handle)

lemma store_ok_emails_differ:
  assumes "store_ok us" and "i < j" and "j < length us"
  shows "u_email (us ! i) \<noteq> u_email (us ! j)"
proof
  assume eq: "u_email (us ! i) = u_email (us ! j)"
  have d: "distinct (map (\<lambda>u. toLowerCase (u_email u)) us)"
    using assms(1) by (simp add: store_ok_def)
  have "i < length (map (\<lambda>u. toLowerCase (u_email u)) us)"
    and "j < length (map (\<lambda>u. toLowerCase (u_email u)) us)"
    using assms by simp_all
  from nth_eq_iff_index_eq [OF d this] have "i = j"
    using eq assms by simp
  then show False
    using assms(2) by simp
qed

lemma signup_created:
  assumes "signup cfg io w (Some n) (Some e) (Some p) = (w1, r)" and "status r = 201"
  shows "\<exists>u. users w1 = users w @ [u] \<and> u_email u = e \<and> find (same_email e) (users w) = None"
proof -
  let ?create = "User_create io (users w) n e (Some (bcrypt_hash cfg p (io_salt io))) None ''local''"
  have given: "n \<noteq> []" "e \<noteq> []" "p \<noteq> []"
    using assms by (auto simp add: signup_def json_fail_def split: if_splits)
  show ?thesis
  proof (cases "User_findByEmail io (users w) e")
    case (Inl x)
    then show ?thesis
      using assms given by (auto simp add: signup_def signup_catch_def json_fail_def)
  next
    case lookup: (Inr found)
    show ?thesis
    proof (cases found)
      case (Some existing)
      then show ?thesis
        using assms given lookup by (auto simp add: signup_def json_fail_def)
    next
      case None
      show ?thesis
      proof (cases ?create)
        case (Inl x)
        then show ?thesis
          using assms given lookup None
          by (auto simp add: signup_def signup_catch_def json_fail_def)
      next
        case (Inr created)
        obtain us' u where created: "created = (us', u)"
          by (cases created)
        have "w1 = w\<lparr>users := us'\<rparr>"
          using assms(1) given lookup None Inr created by (simp add: signup_def)
        then have "users w1 = us'" by simp
        moreover have "?create = Inr (us', u)"
          using Inr created by simp
        ultimately show ?thesis
          using User_create_result(1,2,4) [of io "users w" n e _ None "''local''" us' u]
          by blast
      qed
    qed
  qed
qed

lemma filter_unique:
  "distinct (map f us) \<Longrightarrow> find (\<lambda>u. f u = k) us = Some u \<Longrightarrow> filter (\<lambda>u. f u = k) us = [u]"
proof (induction us)
  case Nil
  then show ?case by simp
next
  case (Cons v vs)
  show ?case
  proof (cases "f v = k")
    case True
    then have "\<forall>x \<in> set vs. f x \<noteq> k"
      using Cons.prems(1) by (auto simp add: image_iff)
    then have "filter (\<lambda>u. f u = k) vs = []"
      by (simp add: filter_empty_conv)
    then show ?thesis
      using True Cons.prems(2) by simp
  next
    case False
    then show ?thesis
      using Cons by simp
  qed
qed

lemma store_ok_one_user:
  assumes "store_ok us" and "find (same_email e) us = Some u"
  shows "filter (same_email e) us = [u]"
proof -
  have "same_email e = (\<lambda>u. toLowerCase (u_email u) = toLowerCase e)"
    by (simp add: same_email_def fun_eq_iff)
  then show ?thesis
    using assms filter_unique [of "\<lambda>u. toLowerCase (u_email u)" us "toLowerCase e" u]
    by (simp add: store_ok_def)
qed

text \<open>
  C5. From a store in which no two users share an id or an email, every sequence of
  requests (whatever the world does during each) leads to such a store again: two
  users at different places of the store never have the same email. In the state
  after such a sequence, a \<open>signup\<close> with an email that a user has, whose lookup does
  not fail, answers 400 \<open>User already exists with this email\<close> and leaves the state
  as it was, and that user is the only one with the email. In particular, after a
  \<open>signup\<close> that created a user (201), a second \<open>signup\<close> with the same email
  answers 400 \<open>User already exists with this email\<close>, and the store holds exactly one
  user with that email.
\<close>

theorem one_user_per_email:
  assumes "store_ok (users w)"
  shows "store_ok (users (serve cfg w rs))
       \<and> (\<forall>i j. i < j \<and> j < length (users (serve cfg w rs)) \<longrightarrow>
              u_email (users (serve cfg w rs) ! i) \<noteq> u_email (users (serve cfg w rs) ! j))
       \<and> (\<forall>io' n' e p' u.
              n' \<noteq> [] \<and> e \<noteq> [] \<and> p' \<noteq> [] \<and> io_fault io' FindByEmail = None
              \<and> find (same_email e) (users (serve cfg w rs)) = Some u \<longrightarrow>
              signup cfg io' (serve cfg w rs) (Some n') (Some e) (Some p')
                = (serve cfg w rs, \<lparr>status = 400,
                                    body = JObj [(''success'', JBool False), (''message'', JStr ''User already exists with this email'')]\<rparr>)
              \<and> filter (same_email e) (users (serve cfg w rs)) = [u])
       \<and> (\<forall>io io' n e p n' p' w1 r.
              signup cfg io (serve cfg w rs) (Some n) (Some e) (Some p) = (w1, r)
              \<and> status r = 201 \<and> n' \<noteq> [] \<and> p' \<noteq> [] \<and> io_fault io' FindByEmail = None \<longrightarrow>
              signup cfg io' w1 (Some n') (Some e) (Some p')
                = (w1, \<lparr>status = 400,
                        body = JObj [(''success'', JBool False), (''message'', JStr ''User already exists with this email'')]\<rparr>)
              \<and> length (filter (same_email e) (users w1)) = 1)"
proof -
  let ?w = "serve cfg w rs"
  have ok: "store_ok (users ?w)"
    using assms by (rule store_ok_serve)
  have second: "signup cfg io' w1 (Some n') (Some e) (Some p')
        = (w1, \<lparr>status = 400,
                body = JObj [(''success'', JBool False), (''message'', JStr ''User already exists with this email'')]\<rparr>)
      \<and> length (filter (same_email e) (users w1)) = 1"
    if first: "signup cfg io ?w (Some n) (Some e) (Some p) = (w1, r)" "status r = 201"
      and again: "n' \<noteq> []" "p' \<noteq> []" "io_fault io' FindByEmail = None"
    for io io' n e p n' p' w1 r
  proof -
    obtain u where u: "users w1 = users ?w @ [u]" "u_email u = e"
        "find (same_email e) (users ?w) = None"
      using signup_created [OF first] by blast
    have e: "e \<noteq> []"
      using first by (auto simp add: signup_def json_fail_def split: if_splits)
    have none: "filter (same_email e) (users ?w) = []"
      using u(3) by (auto simp add: find_None_iff filter_empty_conv)
    have self: "same_email e u"
      using u(2) by (simp add: same_email_def)
    have "find (same_email e) (users w1) = Some u"
      using u(1) find_append_new [OF u(3) self] by simp
    then have "signup cfg io' w1 (Some n') (Some e) (Some p')
        = (w1, \<lparr>status = 400,
                body = JObj [(''success'', JBool False), (''message'', JStr ''User already exists with this email'')]\<rparr>)"
      using again e by (simp add: signup_def findByEmail_ok json_fail_def)
    moreover have "length (filter (same_email e) (users w1)) = 1"
      using u(1) none self by simp
    ultimately show ?thesis by simp
  qed
  have differ: "\<forall>i j. i < j \<and> j < length (users ?w) \<longrightarrow> u_email (users ?w ! i) \<noteq> u_email (users ?w ! j)"
    using store_ok_emails_differ [OF ok] by simp
  have again: "\<forall>io io' n e p n' p' w1 r.
      signup cfg io ?w (Some n) (Some e) (Some p) = (w1, r)
      \<and> status r = 201 \<and> n' \<noteq> [] \<and> p' \<noteq> [] \<and> io_fault io' FindByEmail = None \<longrightarrow>
      signup cfg io' w1 (Some n') (Some e) (Some p')
        = (w1, \<lparr>status = 400,
                body = JObj [(''success'', JBool False), (''message'', JStr ''User already exists with this email'')]\<rparr>)
      \<and> length (filter (same_email e) (users w1)) = 1"
  proof (intro allI impI)
    fix io io' :: io and n e p n' p' :: string and w1 :: world and r :: response
    assume "signup cfg io ?w (Some n) (Some e) (Some p) = (w1, r)
      \<and> status r = 201 \<and> n' \<noteq> [] \<and> p' \<noteq> [] \<and> io_fault io' FindByEmail = None"
    then have first: "signup cfg io ?w (Some n) (Some e) (Some p) = (w1, r)" "status r = 201"
      and next_one: "n' \<noteq> []" "p' \<noteq> []" "io_fault io' FindByEmail = None"
      by simp_all
    show "signup cfg io' w1 (Some n') (Some e) (Some p')
        = (w1, \<lparr>status = 400,
                body = JObj [(''success'', JBool False), (''message'', JStr ''User already exists with this email'')]\<rparr>)
      \<and> length (filter (same_email e) (users w1)) = 1"
      by (rule second [OF first next_one])
  qed
  have taken: "\<forall>io' n' e p' u.
      n' \<noteq> [] \<and> e \<noteq> [] \<and> p' \<noteq> [] \<and> io_fault io' FindByEmail = None
      \<and> find (same_email e) (users ?w) = Some u \<longrightarrow>
      signup cfg io' ?w (Some n') (Some e) (Some p')
        = (?w, \<lparr>status = 400,
                body = JObj [(''success'', JBool False), (''message'', JStr ''User already exists with this email'')]\<rparr>)
      \<and> filter (same_email e) (users ?w) = [u]"
    using store_ok_one_user [OF ok] by (simp add: signup_def findByEmail_ok json_fail_def)
  from ok differ taken again show ?thesis
    by (intro conjI)
qed

theorem one_user_per_email_witness:
  "store_ok (users initial_world)
   \<and> (let w0 = serve sample_config initial_world [(sample_io, GoogleAuth (Some ''bob-credential''))];
           first = signup sample_config sample_io w0 (Some ''Ann'') (Some ''ann@x.com'')
                     (Some ''secret123'');
           w1 = fst first
       in store_ok (users w0)
          \<and> status (snd first) = 201
          \<and> signup sample_config sample_io w1 (Some ''Ann II'') (Some ''ann@x.com'') (Some ''other'')
              = (w1, \<lparr>status = 400,
                      body = JObj [(''success'', JBool False), (''message'', JStr ''User already exists with this email'')]\<rparr>)
          \<and> length (filter (same_email ''ann@x.com'') (users w1)) = 1)"
proof -
  let ?rs = "[(sample_io, GoogleAuth (Some ''bob-credential''))]"
  let ?w0 = "serve sample_config initial_world ?rs"
  let ?first = "signup sample_config sample_io ?w0 (Some ''Ann'') (Some ''ann@x.com'')
                  (Some ''secret123'')"
  have init: "store_ok (users initial_world)"
    by (simp add: store_ok_def initial_world_def)
  have w0: "users ?w0 = [\<lparr>u_id = 1, u_name = ''Bob'', u_email = ''Bob@X.com'', u_password = None,
                           u_authProvider = ''google'', u_googleId = Some ''sub-9'',
                           u_createdAt = 1700000000000\<rparr>]"
    by (simp add: googleAuth_def sample_io_def sample_config_def User_findByEmail_def db_call_def
        initial_world_def User_create_def fresh_id_def googleAuth_success_def Let_def)
  have free: "find (same_email ''ann@x.com'') (users ?w0) = None"
    unfolding w0 by (simp add: same_email_def toLowerCase_def toLowerCase_char_def)
  have created: "status (snd ?first) = 201"
    using free
    by (simp add: signup_def findByEmail_ok sample_io_simps User_create_def auth_success_def
        Let_def del: serve.simps)
  note second = one_user_per_email [OF init, of sample_config ?rs, THEN conjunct2,
      THEN conjunct2, THEN conjunct2, rule_format]
  have "?first = (fst ?first, snd ?first) \<and> status (snd ?first) = 201
      \<and> ''Ann II'' \<noteq> [] \<and> ''other'' \<noteq> [] \<and> io_fault sample_io FindByEmail = None"
    using created by (simp add: sample_io_simps del: serve.simps)
  from second [OF this]
  have again: "signup sample_config sample_io (fst ?first) (Some ''Ann II'') (Some ''ann@x.com'')
            (Some ''other'')
          = (fst ?first, \<lparr>status = 400,
                          body = JObj [(''success'', JBool False), (''message'', JStr ''User already exists with this email'')]\<rparr>)
        \<and> length (filter (same_email ''ann@x.com'') (users (fst ?first))) = 1" .
  have "store_ok (users ?w0)"
    using one_user_per_email [OF init, of sample_config ?rs] by (rule conjunct1)
  with init created again show ?thesis
    unfolding Let_def by (intro conjI) (elim conjE, assumption)+
qed

subsection \<open>createSupportRequest\<close>

lemma fileFilter_keeps: "fileFilter part = Inr keep \<Longrightarrow> keep"
  by (auto simp add: fileFilter_def Let_def split: if_splits)

lemma too_large_above: "5 * 1024 * 1024 < n \<Longrightarrow> too_large io n"
  by (simp add: too_large_def fileSize_limit_def)

lemma not_too_large: "\<not> too_large io n \<Longrightarrow> n \<le> 5 * 1024 * 1024"
  by (simp add: too_large_def fileSize_limit_def)

lemma multer_array_rejects:
  "left < length (named_parts parts)
     \<or> \<not> list_all (\<lambda>f. f_size f \<le> 5 * 1024 * 1024) (named_parts parts)
     \<Longrightarrow> \<exists>err. multer_array io left i parts = Inl err"
proof (induction parts arbitrary: left i)
  case Nil
  then show ?case by (simp add: named_parts_def)
next
  case (Cons part rest)
  show ?case
  proof (cases "f_originalname part = []")
    case True
    then show ?thesis
      using Cons.prems Cons.IH [of left i] by (simp add: named_parts_def)
  next
    case named: False
    show ?thesis
    proof (cases "fileFilter part")
      case (Inl err)
      then show ?thesis
        using named by simp
    next
      case (Inr keep)
      then have keep: keep
        by (rule fileFilter_keeps)
      show ?thesis
      proof (cases "f_fieldname part \<noteq> ''attachments'' \<or> left = 0
          \<or> too_large io (f_size part)")
        case True
        then show ?thesis
          using named Inr keep by auto
      next
        case False
        then have "f_size part \<le> 5 * 1024 * 1024"
          using not_too_large by blast
        then have "left - 1 < length (named_parts rest)
            \<or> \<not> list_all (\<lambda>f. f_size f \<le> 5 * 1024 * 1024) (named_parts rest)"
          using Cons.prems named False by (auto simp add: named_parts_def)
        from Cons.IH [OF this, of "Suc i"] obtain err
          where "multer_array io (left - 1) (Suc i) rest = Inl err" by blast
        then show ?thesis
          using named False Inr keep by simp
      qed
    qed
  qed
qed

lemma multer_array_accepts:
  "multer_array io left i parts = Inr files
     \<Longrightarrow> length files \<le> left \<and> list_all (\<lambda>f. f_size f \<le> 5 * 1024 * 1024) files"
proof (induction parts arbitrary: left i files)
  case Nil
  then show ?case by simp
next
  case (Cons part rest)
  show ?case
  proof (cases "f_originalname part = []")
    case True
    then show ?thesis
      using Cons.prems Cons.IH [of left i files] by simp
  next
    case named: False
    show ?thesis
    proof (cases "fileFilter part")
      case (Inl err)
      then show ?thesis
        using Cons.prems named by (simp split: if_splits)
    next
      case (Inr keep)
      then have keep: keep
        by (rule fileFilter_keeps)
      have left: "0 < left" and size: "\<not> too_large io (f_size part)"
        using Cons.prems named Inr keep by (auto split: if_splits)
      then obtain files' where rest: "multer_array io (left - 1) (Suc i) rest = Inr files'"
        and files: "files = store_file io i part # files'"
        using Cons.prems named Inr keep by (auto split: if_splits sum.splits)
      from Cons.IH [OF rest] files left not_too_large [OF size] show ?thesis
        by (auto simp add: store_file_def)
    qed
  qed
qed

lemma upload_error_response_fail:
  "\<exists>m. upload_error_response err
         = \<lparr>status = 400, body = JObj [(''success'', JBool False), (''message'', JStr m)]\<rparr>"
  by (auto simp add: upload_error_response_def json_fail_def)

lemma embed_attachments_fields:
  "length (embed_attachments i as) = length as"
  "map a_filename (embed_attachments i as) = map a_filename as"
  "map a_mimetype (embed_attachments i as) = map a_mimetype as"
  "map a_size (embed_attachments i as) = map a_size as"
  by (induction as arbitrary: i) simp_all

lemma SupportRequest_create_result:
  assumes "SupportRequest_create io rs subject description phoneNumber email attachments userId
             = Inr (rs', doc)"
  shows "rs' = rs @ [doc]"
    and "sr_attachments doc = embed_attachments (Suc (fresh_request_id rs)) attachments"
  using assms
  by (auto simp add: SupportRequest_create_def Let_def split: if_splits option.splits)

lemma createSupportRequest_outcome:
  obtains (rejected) err
    where "upload io (req_files req) = Inl err"
      and "createSupportRequest io w req = (w, upload_error_response err)"
  | (missing) r
    where "createSupportRequest io w req = (w, r)" and "status r = 400"
  | (failed) e r
    where "createSupportRequest io w req
             = (log_error w ''Error creating support request:'' e, r)"
      and "status r = 500"
  | (created) files doc r
    where "upload io (req_files req) = Inr files"
      and "createSupportRequest io w req
             = (w\<lparr>supportRequests := supportRequests w @ [doc]\<rparr>, r)"
      and "status r = 201"
      and "map a_filename (sr_attachments doc) = map f_originalname files"
      and "map a_mimetype (sr_attachments doc) = map f_mimetype files"
      and "map a_size (sr_attachments doc) = map f_size files"
proof (cases "upload io (req_files req)")
  case (Inl err)
  then show ?thesis
    using rejected by (simp add: createSupportRequest_def)
next
  case (Inr files)
  show ?thesis
  proof (cases "falsy (req_subject req) \<or> falsy (req_description req) \<or> falsy (req_email req)")
    case True
    then show ?thesis
      using Inr missing by (simp add: createSupportRequest_def)
  next
    case False
    let ?attachments = "map (\<lambda>f. \<lparr>a_filename = f_originalname f, a_path = f_path f,
                          a_mimetype = f_mimetype f, a_size = f_size f\<rparr>) files"
    let ?create = "SupportRequest_create io (supportRequests w) (or_empty (req_subject req))
        (or_empty (req_description req)) (or_empty (req_phoneNumber req))
        (or_empty (req_email req)) ?attachments (req_user req)"
    show ?thesis
    proof (cases ?create)
      case (Inl e)
      then show ?thesis
        using Inr False failed [of e] by (simp add: createSupportRequest_def Let_def)
    next
      case stored: (Inr res)
      obtain rs' doc where res: "res = (rs', doc)"
        by (cases res)
      have "?create = Inr (rs', doc)"
        using stored res by simp
      from SupportRequest_create_result [OF this] show ?thesis
        using Inr False stored res created [of files doc]
        by (simp add: createSupportRequest_def Let_def embed_attachments_fields comp_def)
    qed
  qed
qed

text \<open>
  The limits on number and size are enforced: when the file parts of a request are
  not within them, \<open>createSupportRequest\<close> answers 400 and leaves the state as it was.
  A support request is stored only with the answer 201, and then it has at most 5
  attachments of at most 5 MB each.
\<close>

lemma upload_count_and_size_enforced:
  "(\<not> within_count_and_size (req_files req) \<longrightarrow>
      (\<exists>m. createSupportRequest io w req
             = (w, \<lparr>status = 400,
                    body = JObj [(''success'', JBool False), (''message'', JStr m)]\<rparr>)))
   \<and> (status (snd (createSupportRequest io w req)) = 201 \<longrightarrow>
        (\<exists>doc. supportRequests (fst (createSupportRequest io w req)) = supportRequests w @ [doc]
           \<and> length (sr_attachments doc) \<le> 5
           \<and> list_all (\<lambda>n. n \<le> 5 * 1024 * 1024) (map a_size (sr_attachments doc))))
   \<and> (status (snd (createSupportRequest io w req)) \<noteq> 201 \<longrightarrow>
        supportRequests (fst (createSupportRequest io w req)) = supportRequests w)"
proof (intro conjI impI)
  assume "\<not> within_count_and_size (req_files req)"
  then have "maxCount < length (named_parts (req_files req))
      \<or> \<not> list_all (\<lambda>f. f_size f \<le> 5 * 1024 * 1024) (named_parts (req_files req))"
    by (auto simp add: within_count_and_size_def maxCount_def)
  from multer_array_rejects [OF this] obtain err where "upload io (req_files req) = Inl err"
    unfolding upload_def by blast
  then show "\<exists>m. createSupportRequest io w req
      = (w, \<lparr>status = 400, body = JObj [(''success'', JBool False), (''message'', JStr m)]\<rparr>)"
    using upload_error_response_fail [of err] by (auto simp add: createSupportRequest_def)
next
  assume is_201: "status (snd (createSupportRequest io w req)) = 201"
  show "\<exists>doc. supportRequests (fst (createSupportRequest io w req)) = supportRequests w @ [doc]
      \<and> length (sr_attachments doc) \<le> 5
      \<and> list_all (\<lambda>n. n \<le> 5 * 1024 * 1024) (map a_size (sr_attachments doc))"
  proof (cases rule: createSupportRequest_outcome [of io req w])
    case (rejected err)
    then show ?thesis
      using is_201 upload_error_response_fail [of err] by auto
  next
    case (missing r)
    then show ?thesis
      using is_201 by simp
  next
    case (failed e r)
    then show ?thesis
      using is_201 by simp
  next
    case (created files doc r)
    have "length files \<le> 5" and "list_all (\<lambda>f. f_size f \<le> 5 * 1024 * 1024) files"
      using multer_array_accepts [of io maxCount 0 "req_files req" files] created(1)
      by (simp_all add: upload_def maxCount_def)
    then have "length files \<le> 5"
      and "list_all (\<lambda>n. n \<le> 5 * 1024 * 1024) (map f_size files)"
      by (simp_all add: list_all_iff)
    moreover have "length (sr_attachments doc) = length files"
      using created(6) by (metis length_map)
    ultimately show ?thesis
      using created by simp
  qed
next
  assume not_201: "status (snd (createSupportRequest io w req)) \<noteq> 201"
  show "supportRequests (fst (createSupportRequest io w req)) = supportRequests w"
  proof (cases rule: createSupportRequest_outcome [of io req w])
    case (created files doc r)
    then show ?thesis
      using not_201 by simp
  qed (simp_all add: log_error_def)
qed



lemma sample_form_fields:
  "\<not> falsy (req_subject sample_form)" "\<not> falsy (req_description sample_form)"
  "\<not> falsy (req_email sample_form)"
  "validation_errors (trim (or_empty (req_subject sample_form)))
     (trim (or_empty (req_description sample_form)))
     (toLowerCase (trim (or_empty (req_email sample_form)))) = []"
proof -
  have "trim ''Login problem'' = ''Login problem''" "trim ''I cannot log in'' = ''I cannot log in''"
    "trim ''Ann@X.com'' = ''Ann@X.com''"
    by (simp_all add: trim_def strip_start.simps white_space_def)
  moreover have "js_length ''Login problem'' = 13"
    by (simp add: js_length_def utf16_units_def)
  ultimately show "validation_errors (trim (or_empty (req_subject sample_form)))
     (trim (or_empty (req_description sample_form)))
     (toLowerCase (trim (or_empty (req_email sample_form)))) = []"
    by (simp add: sample_form_def or_empty_def validation_errors_def toLowerCase_def)
qed (simp_all add: sample_form_def falsy_simps)

text \<open>
  C9. The claim holds of the limits on number and size, and fails of the file types.
  \<open>fileFilter\<close> tests the extension and the mimetype with an unanchored pattern, so it
  accepts every name and mimetype that contain one of the eight alternatives
  somewhere. The file \<open>macro.docm\<close> with the mimetype
  \<open>application/vnd.ms-word.document.macroEnabled.12\<close> is none of jpeg, jpg, png, gif,
  pdf, doc, docx and txt; \<open>fileFilter\<close> accepts it, and \<open>createSupportRequest\<close>
  answers 201 and stores a support request with that attachment.
\<close>

theorem createSupportRequest_stores_docm:
  "extname (f_originalname macro_docm) = ''.docm''
   \<and> fileFilter macro_docm = Inr True
   \<and> status (snd (createSupportRequest sample_io sample_world
                    (sample_form\<lparr>req_files := [macro_docm]\<rparr>))) = 201
   \<and> map (\<lambda>doc. map (\<lambda>a. (a_filename a, a_mimetype a)) (sr_attachments doc))
        (supportRequests (fst (createSupportRequest sample_io sample_world
                                 (sample_form\<lparr>req_files := [macro_docm]\<rparr>))))
     = [[(''macro.docm'', ''application/vnd.ms-word.document.macroEnabled.12'')]]"
proof -
  let ?form = "sample_form\<lparr>req_files := [macro_docm]\<rparr>"
  have ext: "extname (f_originalname macro_docm) = ''.docm''"
    by (simp add: macro_docm_def extname_def basename_segment_def Let_def)
  have "allowedTypes_test (toLowerCase ''.docm'')"
    by (simp add: allowedTypes_test_def allowedTypes_def toLowerCase_def toLowerCase_char_def)
  moreover have "allowedTypes_test (f_mimetype macro_docm)"
    by (simp add: macro_docm_def allowedTypes_test_def allowedTypes_def)
  ultimately have accepted: "fileFilter macro_docm = Inr True"
    using ext by (simp add: fileFilter_def Let_def)
  have "f_originalname macro_docm \<noteq> []" "f_fieldname macro_docm = ''attachments''"
    "\<not> too_large sample_io (f_size macro_docm)"
    by (simp_all add: macro_docm_def too_large_def fileSize_limit_def)
  then have upload: "upload sample_io (req_files ?form) = Inr [store_file sample_io 0 macro_docm]"
    using accepted by (simp add: upload_def maxCount_def)
  have fields: "\<not> falsy (req_subject ?form)" "\<not> falsy (req_description ?form)"
    "\<not> falsy (req_email ?form)"
    "validation_errors (trim (or_empty (req_subject ?form)))
       (trim (or_empty (req_description ?form)))
       (toLowerCase (trim (or_empty (req_email ?form)))) = []"
    using sample_form_fields by simp_all
  have created: "status (snd (createSupportRequest sample_io sample_world ?form)) = 201"
    using upload fields
    by (simp add: createSupportRequest_def SupportRequest_create_def sample_io_simps Let_def)
  have stored: "map (\<lambda>doc. map (\<lambda>a. (a_filename a, a_mimetype a)) (sr_attachments doc))
        (supportRequests (fst (createSupportRequest sample_io sample_world ?form)))
      = [[(''macro.docm'', ''application/vnd.ms-word.document.macroEnabled.12'')]]"
    using upload fields
    by (simp add: createSupportRequest_def SupportRequest_create_def sample_io_simps Let_def
        sample_world_def store_file_def macro_docm_def)
  from ext accepted created stored show ?thesis
    by (intro conjI)
qed

subsection \<open>Failing database calls\<close>












end
